theory Spec2Isabelle
  imports Complex_Main "HOL-Library.Word" "HOL-Library.AList" "HOL-Library.Finite_Map"
begin

unbundle bit_operations_syntax

section \<open>Time and durations\<close>

text \<open>
  A \<open>time.Time\<close> is modelled by its instant, in nanoseconds since the Unix epoch, and a
  \<open>time.Duration\<close> (an int64 count of nanoseconds) by an integer with the wrap-around
  and the saturation of the Go operations written out. One call of a handler reads a
  single clock value \<open>now\<close>: every \<open>time.Now()\<close> and \<open>time.Since\<close> inside it sees
  that value.
\<close>

type_synonym time = int
type_synonym duration = int

definition maxInt64 :: int where
  "maxInt64 = 9223372036854775807"

definition minInt64 :: int where
  "minInt64 = - 9223372036854775808"

definition wrap64 :: "int \<Rightarrow> duration" where
  \<comment> \<open>the int64 result of an arithmetic operation (two's complement wrap-around)\<close>
  "wrap64 x = (x + 9223372036854775808) mod 18446744073709551616 - 9223372036854775808"

definition sat64 :: "int \<Rightarrow> duration" where
  \<comment> \<open>\<open>Time.Sub\<close> saturates at the largest and the smallest Duration\<close>
  "sat64 x = (if x > maxInt64 then maxInt64 else if x < minInt64 then minInt64 else x)"

definition time_Since :: "time \<Rightarrow> time \<Rightarrow> duration" where
  "time_Since now t = sat64 (now - t)"

definition zeroTime :: time where
  \<comment> \<open>the zero \<open>time.Time\<close>: January 1, year 1, 00:00 UTC\<close>
  "zeroTime = - 62135596800000000000"

section \<open>The keyed lock registry (mutexes.go)\<close>

text \<open>
  The package variables \<open>mutexMaxCacheSize\<close> and \<open>mutexStaleMutexes\<close>, and one item of
  the map. The wait channel of an item carries no data and is left out; the fields are
  prefixed because \<open>lastAccess\<close> is also a field of a session.
\<close>

record mutexConfig =
  mutexMaxCacheSize :: int
  mutexStaleMutexes :: duration

record mutexItem =
  mi_locks :: int
  mi_lastAccess :: time

text \<open>
  \<open>m.items\<close> is an association list. Its order stands for the order in which \<open>range\<close>
  visits the map, which Go leaves unspecified: a statement for every list is a statement
  for every order.
\<close>

type_synonym 'k mutexItems = "('k \<times> mutexItem) list"

definition getItem :: "time \<Rightarrow> mutexConfig \<Rightarrow> 'k \<Rightarrow> 'k mutexItems \<Rightarrow> mutexItem \<times> 'k mutexItems \<times> bool" where
  \<comment> \<open>returns the item, the new map, and whether a purge was requested\<close>
  "getItem now G key items =
     (case map_of items key of
        None \<Rightarrow>
          (let item = \<lparr>mi_locks = 0, mi_lastAccess = now\<rparr>;
               items' = AList.update key item items
           in (item, items', int (length items') > mutexMaxCacheSize G))
      | Some item0 \<Rightarrow>
          (let item = item0\<lparr>mi_lastAccess := now\<rparr>
           in (item, AList.update key item items, False)))"

definition acquire :: "time \<Rightarrow> mutexConfig \<Rightarrow> 'k \<Rightarrow> 'k mutexItems \<Rightarrow> 'k mutexItems" where
  \<comment> \<open>\<open>case key := <-m.acquire\<close>: the signal on the wait channel is not modelled\<close>
  "acquire now G key items =
     (case getItem now G key items of
        (item, items', _) \<Rightarrow> AList.update key (item\<lparr>mi_locks := mi_locks item + 1\<rparr>) items')"

definition release :: "time \<Rightarrow> mutexConfig \<Rightarrow> 'k \<Rightarrow> 'k mutexItems \<Rightarrow> 'k mutexItems" where
  \<comment> \<open>\<open>case key := <-m.release\<close>\<close>
  "release now G key items =
     (case getItem now G key items of
        (item, items', _) \<Rightarrow>
          if mi_locks item > 0
          then AList.update key (item\<lparr>mi_locks := mi_locks item - 1\<rparr>) items'
          else items')"

fun purge_loop :: "time \<Rightarrow> mutexConfig \<Rightarrow> 'k mutexItems \<Rightarrow> 'k mutexItems \<Rightarrow> 'k mutexItems" where
  \<comment> \<open>the \<open>range\<close> loop of the purge case: the entries still to visit, and the map\<close>
  "purge_loop now G [] items = items"
| "purge_loop now G ((key, item) # rest) items =
     purge_loop now G rest
       (if time_Since now (mi_lastAccess item) > mutexStaleMutexes G \<or>
           int (length items) > mutexMaxCacheSize G \<and> mi_locks item = 0
        then AList.delete key items
        else items)"

definition purge :: "time \<Rightarrow> mutexConfig \<Rightarrow> 'k mutexItems \<Rightarrow> 'k mutexItems" where
  \<comment> \<open>\<open>case <-m.purge\<close>\<close>
  "purge now G items = purge_loop now G items items"

definition hour :: duration where
  "hour = 3600000000000"

definition defaultMutexConfig :: mutexConfig where
  "defaultMutexConfig = \<lparr>mutexMaxCacheSize = 1024 * 1024, mutexStaleMutexes = hour\<rparr>"

section \<open>Values, users, sessions\<close>

text \<open>
  A Go \<open>error\<close> is its message. A run-time panic is kept apart from a returned error.
\<close>

type_synonym error = string

datatype fault = Err error | Panic string

text \<open>
  The \<open>interface{}\<close> values that session data and user identifiers carry. \<open>VNum\<close> is a
  float64, given by its exact value (the only numbers \<open>encoding/json\<close> produces);
  \<open>VList\<close> is \<open>[]interface{}\<close> and \<open>VMap\<close> is \<open>map[string]interface{}\<close>.
\<close>

datatype val =
    VNil
  | VBool bool
  | VInt int
  | VNum rat
  | VStr string
  | VList "val list"
  | VMap "(string \<times> val) list"

text \<open>The \<open>User\<close> interface (user.go): an object answering \<open>GetID\<close> and \<open>GetRoles\<close>.\<close>

record User =
  GetID :: val
  GetRoles :: "string list"

text \<open>
  The \<open>Session\<close> struct. The field \<open>id\<close> is called \<open>sid\<close> here. \<open>user = None\<close> is the
  nil interface, \<open>data = None\<close> the nil map, and a map that is not nil is a finite map. The embedded RWMutex is left out: one
  handler runs at a time.
\<close>

record Session =
  sid :: string
  user :: "User option"
  created :: time
  lastAccess :: time
  lastIP :: string
  lastUserAgentHash :: "64 word"
  referenceID :: string
  data :: "(string, val) fmap option"

definition newSession :: Session where
  \<comment> \<open>the zero value \<open>Session{}\<close>\<close>
  "newSession = \<lparr>sid = [], user = None, created = zeroTime, lastAccess = zeroTime,
     lastIP = [], lastUserAgentHash = 0, referenceID = [], data = None\<rparr>"

section \<open>Cookies, configuration, persistence layer (config.go, persistence.go)\<close>

record cookie =
  cName :: string
  cValue :: string
  cExpires :: time
  cMaxAge :: int
  cHttpOnly :: bool
  cSecure :: bool
  cDomain :: string
  cPath :: string

text \<open>
  The \<open>PersistenceLayer\<close> interface over a backend state \<open>'p\<close>. A loaded session is a
  fresh object; \<open>Inl\<close> is the returned error. \<open>SaveSession\<close> sees the session as it is
  at the call.
\<close>

record 'p PersistenceLayer =
  LoadSession :: "string \<Rightarrow> 'p \<Rightarrow> (error + Session option) \<times> 'p"
  SaveSession :: "string \<Rightarrow> Session \<Rightarrow> 'p \<Rightarrow> error option \<times> 'p"
  DeleteSession :: "string \<Rightarrow> 'p \<Rightarrow> error option \<times> 'p"
  UserSessions :: "val \<Rightarrow> 'p \<Rightarrow> (error + string list) \<times> 'p"
  LoadUser :: "val \<Rightarrow> 'p \<Rightarrow> (error + User option) \<times> 'p"

definition ExtendablePersistenceLayer :: "'p PersistenceLayer" where
  \<comment> \<open>\<open>ExtendablePersistenceLayer{}\<close> with no function set: the package default\<close>
  "ExtendablePersistenceLayer =
     \<lparr>LoadSession = (\<lambda>i p. (Inr None, p)),
      SaveSession = (\<lambda>i s p. (None, p)),
      DeleteSession = (\<lambda>i p. (None, p)),
      UserSessions = (\<lambda>u p. (Inr [], p)),
      LoadUser = (\<lambda>u p. (Inr None, p))\<rparr>"

record 'p config =
  Persistence :: "'p PersistenceLayer"
  SessionExpiry :: duration
  SessionIDExpiry :: duration
  SessionIDGracePeriod :: duration
  AcceptRemoteIP :: int
  AcceptChangingUserAgent :: bool
  SessionCookie :: string
  NewSessionCookie :: "time \<Rightarrow> cookie"
  MaxSessionCacheSize :: int
  SessionCacheExpiry :: duration

definition minute :: duration where
  "minute = 60000000000"

definition defaultNewSessionCookie :: "time \<Rightarrow> cookie" where
  "defaultNewSessionCookie t =
     \<lparr>cName = [], cValue = [], cExpires = t + 10 * 365 * 24 * hour,
      cMaxAge = 10 * 365 * 24 * 60 * 60, cHttpOnly = True, cSecure = False,
      cDomain = [], cPath = []\<rparr>"

definition defaultConfig :: "'p config" where
  "defaultConfig =
     \<lparr>Persistence = ExtendablePersistenceLayer,
      SessionExpiry = maxInt64,
      SessionIDExpiry = hour,
      SessionIDGracePeriod = 5 * minute,
      AcceptRemoteIP = 1,
      AcceptChangingUserAgent = False,
      SessionCookie = ''id'',
      NewSessionCookie = defaultNewSessionCookie,
      MaxSessionCacheSize = 1024 * 1024,
      SessionCacheExpiry = hour\<rparr>"

section \<open>The state of the process\<close>

text \<open>
  Sessions are objects shared through pointers: \<open>heap\<close> maps an address to the object,
  \<open>nextAddr\<close> is the next free address. \<open>cache\<close> is \<open>sessions.sessions\<close>, the map from
  session ID to session pointer, as an association list whose order stands for the
  order of \<open>range\<close>. \<open>store\<close> is the state of the backend; \<open>trace\<close> records the calls
  made on the persistence layer, oldest first. \<open>entropy\<close> gives the outcome of the
  n-th call of \<open>rand.Read\<close> (the 16 bytes, or the error). \<open>timers\<close> holds the deletions
  scheduled by \<open>RegenerateID\<close> (delay and session ID). \<open>response\<close> is the list of
  cookies set on the response of the request being served.
\<close>

datatype event =
    ELoadSession string
  | ESaveSession string Session
  | EDeleteSession string
  | EUserSessions val
  | ELoadUser val

record 'p world =
  now :: time
  heap :: "nat \<Rightarrow> Session"
  nextAddr :: nat
  cache :: "(string \<times> nat) list"
  store :: 'p
  trace :: "event list"
  entropy :: "nat \<Rightarrow> error + 8 word list"
  randCalls :: nat
  timers :: "(duration \<times> string) list"
  response :: "cookie list"

definition pLoadSession :: "'p config \<Rightarrow> string \<Rightarrow> 'p world \<Rightarrow> (error + Session option) \<times> 'p world" where
  "pLoadSession C i w =
     (case LoadSession (Persistence C) i (store w) of
        (r, p) \<Rightarrow> (r, w\<lparr>store := p, trace := trace w @ [ELoadSession i]\<rparr>))"

definition pSaveSession :: "'p config \<Rightarrow> string \<Rightarrow> nat \<Rightarrow> 'p world \<Rightarrow> error option \<times> 'p world" where
  \<comment> \<open>\<open>Persistence.SaveSession(i, s)\<close> for the session object at address \<open>a\<close>\<close>
  "pSaveSession C i a w =
     (case SaveSession (Persistence C) i (heap w a) (store w) of
        (r, p) \<Rightarrow> (r, w\<lparr>store := p, trace := trace w @ [ESaveSession i (heap w a)]\<rparr>))"

definition pDeleteSession :: "'p config \<Rightarrow> string \<Rightarrow> 'p world \<Rightarrow> error option \<times> 'p world" where
  "pDeleteSession C i w =
     (case DeleteSession (Persistence C) i (store w) of
        (r, p) \<Rightarrow> (r, w\<lparr>store := p, trace := trace w @ [EDeleteSession i]\<rparr>))"


definition pLoadUser :: "'p config \<Rightarrow> val \<Rightarrow> 'p world \<Rightarrow> (error + User option) \<times> 'p world" where
  "pLoadUser C u w =
     (case LoadUser (Persistence C) u (store w) of
        (r, p) \<Rightarrow> (r, w\<lparr>store := p, trace := trace w @ [ELoadUser u]\<rparr>))"

section \<open>The session cache\<close>

fun compact_old :: "'p config \<Rightarrow> (string \<times> nat) list \<Rightarrow> 'p world \<Rightarrow> error option \<times> 'p world" where
  \<comment> \<open>first loop of \<open>compact\<close>: the entries still to visit, and the state\<close>
  "compact_old C [] w = (None, w)"
| "compact_old C ((i, a) # rest) w =
     (if time_Since (now w) (lastAccess (heap w a)) > SessionCacheExpiry C
      then (case pSaveSession C i a w of
              (Some err, w') \<Rightarrow> (Some err, w')
            | (None, w') \<Rightarrow> compact_old C rest (w'\<lparr>cache := AList.delete i (cache w')\<rparr>))
      else compact_old C rest w)"

fun findOldest :: "(nat \<Rightarrow> Session) \<Rightarrow> (string \<times> nat) list \<Rightarrow> time \<times> string \<Rightarrow> time \<times> string" where
  \<comment> \<open>the inner \<open>range\<close> loop: \<open>(oldestAccessTime, oldestSessionID)\<close>\<close>
  "findOldest h [] acc = acc"
| "findOldest h ((i, a) # rest) (oldestAccessTime, oldestSessionID) =
     findOldest h rest
       (if oldestSessionID = [] \<or> lastAccess (h a) < oldestAccessTime
        then (lastAccess (h a), i)
        else (oldestAccessTime, oldestSessionID))"

lemma pSaveSession_cache [simp]: "cache (snd (pSaveSession C i a w)) = cache w"
  by (simp add: pSaveSession_def split: prod.split)

lemma delete_shorter: "map_of c k = Some a \<Longrightarrow> length (AList.delete k c) < length c"
  by (induction c) (auto simp: less_Suc_eq_le length_delete_le split: if_splits)

function compact_drop :: "'p config \<Rightarrow> int \<Rightarrow> int \<Rightarrow> 'p world \<Rightarrow> (int \<times> error option) \<times> 'p world" where
  \<comment> \<open>second loop of \<open>compact\<close>; \<open>dropped\<close> counts the sessions dropped so far. The
      branch \<open>None\<close> is not reached from \<open>compact\<close>: a key found by the inner loop is in
      the map (\<open>compact_drop_finds_session\<close>).\<close>
  "compact_drop C requiredSpace dropped w =
     (if int (length (cache w)) + requiredSpace > MaxSessionCacheSize C
      then (let oldestSessionID = snd (findOldest (heap w) (cache w) (zeroTime, []))
            in case map_of (cache w) oldestSessionID of
                 None \<Rightarrow> ((0, Some ''nil session''), w)
               | Some a \<Rightarrow>
                   (case pSaveSession C oldestSessionID a w of
                      (Some err, w') \<Rightarrow> ((0, Some err), w')
                    | (None, w') \<Rightarrow>
                        compact_drop C requiredSpace (dropped + 1)
                          (w'\<lparr>cache := AList.delete oldestSessionID (cache w')\<rparr>)))
      else ((dropped, None), w))"
  by pat_completeness auto
termination
proof (relation "measure (\<lambda>(C, r, d, w). length (cache w))", goal_cases)
  case 1
  show ?case by simp
next
  case (2 C requiredSpace dropped w k a r w')
  from 2 have "snd (pSaveSession C k a w) = w'"
    by (metis snd_conv)
  then have "cache w' = cache w"
    using pSaveSession_cache [of C k a w] by simp
  with 2 show ?case by (simp add: delete_shorter)
qed

declare compact_drop.simps [simp del]

definition cache_compact :: "'p config \<Rightarrow> int \<Rightarrow> 'p world \<Rightarrow> (int \<times> error option) \<times> 'p world" where
  \<comment> \<open>\<open>(c *cache) compact\<close>: the number of dropped sessions and the error\<close>
  "cache_compact C requiredSpace w =
     (case compact_old C (cache w) w of
        (Some err, w1) \<Rightarrow> ((0, Some err), w1)
      | (None, w1) \<Rightarrow>
          if MaxSessionCacheSize C < 0 \<or>
             int (length (cache w1)) + requiredSpace \<le> MaxSessionCacheSize C
          then ((0, None), w1)
          else compact_drop C
                 (if requiredSpace > MaxSessionCacheSize C then MaxSessionCacheSize C
                  else requiredSpace)
                 0 w1)"

definition cache_Get :: "'p config \<Rightarrow> string \<Rightarrow> 'p world \<Rightarrow> (error + nat option) \<times> 'p world" where
  \<comment> \<open>\<open>(c *cache) Get\<close>: the pointer to the session, \<open>None\<close> for a nil session\<close>
  "cache_Get C i w =
     (case map_of (cache w) i of
        Some a \<Rightarrow> (Inr (Some a), w)
      | None \<Rightarrow>
          (case pLoadSession C i w of
             (Inl err, w1) \<Rightarrow> (Inl err, w1)
           | (Inr None, w1) \<Rightarrow> (Inr None, w1)
           | (Inr (Some s), w1) \<Rightarrow>
               (let a = nextAddr w1;
                    w2 = w1\<lparr>heap := (heap w1)(a := s), nextAddr := a + 1\<rparr>;
                    w3 = (if MaxSessionCacheSize C \<noteq> 0
                          then (let w' = snd (cache_compact C 1 w2)
                                in w'\<lparr>cache := AList.update i a (cache w')\<rparr>)
                          else w2)
                in (Inr (Some a), w3\<lparr>heap := (heap w3)(a := (heap w3 a)\<lparr>sid := i\<rparr>)\<rparr>))))"

definition cache_Set :: "'p config \<Rightarrow> nat \<Rightarrow> 'p world \<Rightarrow> error option \<times> 'p world" where
  \<comment> \<open>\<open>(c *cache) Set\<close> for the session object at address \<open>a\<close>\<close>
  "cache_Set C a w =
     (let w1 = w\<lparr>heap := (heap w)(a := (heap w a)\<lparr>lastAccess := now w\<rparr>)\<rparr>;
          i = sid (heap w1 a);
          requiredSpace = (if map_of (cache w1) i = None then 1 else 0);
          w2 = snd (cache_compact C requiredSpace w1);
          w3 = (if MaxSessionCacheSize C \<noteq> 0
                then w2\<lparr>cache := AList.update i a (cache w2)\<rparr> else w2)
      in case pSaveSession C i a w3 of
           (Some err, w4) \<Rightarrow> (None, w4)
         | (None, w4) \<Rightarrow> (None, w4))"

definition cache_Delete :: "'p config \<Rightarrow> string \<Rightarrow> 'p world \<Rightarrow> error option \<times> 'p world" where
  "cache_Delete C i w = pDeleteSession C i (w\<lparr>cache := AList.delete i (cache w)\<rparr>)"

section \<open>Session data (Set, Get, GetAndDelete, Delete)\<close>

text \<open>
  The methods act on the session object at address \<open>a\<close>. Writing to a nil map panics;
  reading it and deleting from it do not.
\<close>

definition Session_Set :: "'p config \<Rightarrow> nat \<Rightarrow> string \<Rightarrow> val \<Rightarrow> 'p world \<Rightarrow> fault option \<times> 'p world" where
  "Session_Set C a key v w =
     (case data (heap w a) of
        None \<Rightarrow> (Some (Panic ''assignment to entry in nil map''), w)
      | Some m \<Rightarrow>
          (let w1 = w\<lparr>heap := (heap w)(a := (heap w a)\<lparr>data := Some (fmupd key v m)\<rparr>)\<rparr>
           in case pSaveSession C (sid (heap w1 a)) a w1 of
                (r, w2) \<Rightarrow> (map_option Err r, w2)))"

definition Session_Get :: "nat \<Rightarrow> string \<Rightarrow> val \<Rightarrow> 'p world \<Rightarrow> val" where
  "Session_Get a key def w =
     (case data (heap w a) of
        None \<Rightarrow> def
      | Some m \<Rightarrow> (case fmlookup m key of Some v \<Rightarrow> v | None \<Rightarrow> def))"

definition Session_GetAndDelete :: "nat \<Rightarrow> string \<Rightarrow> val \<Rightarrow> 'p world \<Rightarrow> val \<times> 'p world" where
  "Session_GetAndDelete a key def w =
     (case data (heap w a) of
        None \<Rightarrow> (def, w)
      | Some m \<Rightarrow>
          (case fmlookup m key of
             Some v \<Rightarrow> (v, w\<lparr>heap := (heap w)(a := (heap w a)\<lparr>data := Some (fmdrop key m)\<rparr>)\<rparr>)
           | None \<Rightarrow> (def, w)))"

definition Session_Delete :: "'p config \<Rightarrow> nat \<Rightarrow> string \<Rightarrow> 'p world \<Rightarrow> error option \<times> 'p world" where
  "Session_Delete C a key w =
     (let w1 = (case data (heap w a) of
                  None \<Rightarrow> w
                | Some m \<Rightarrow> w\<lparr>heap := (heap w)(a := (heap w a)\<lparr>data := Some (fmdrop key m)\<rparr>)\<rparr>)
      in pSaveSession C (sid (heap w1 a)) a w1)"

section \<open>Serialization (GobEncode, GobDecode, UnmarshalJSON)\<close>

text \<open>
  A gob payload is modelled by the sequence of values it carries, one per call of
  \<open>Encode\<close>: an unsigned integer, a \<open>time.Time\<close>, a string, a boolean, the struct
  \<open>struct{ V interface{} }\<close>, a \<open>map[string]interface{}\<close>. \<open>Decode\<close> takes the next
  value and fails at the end of the payload and on a value of another type.

  gob sends an interface value under the name with which its concrete type is
  registered. The package registers no type, so the registered types are those that gob
  registers itself: the basic types, of which \<open>bool\<close>, \<open>int\<close>, \<open>float64\<close> and \<open>string\<close>
  occur here. A \<open>[]interface{}\<close> and a \<open>map[string]interface{}\<close> are refused by the
  encoder (\<open>type not registered for interface\<close>) and by the decoder (\<open>name not registered
  for interface\<close>). The nil interface value is sent under the empty name. When a map
  holds values of both refused types, Go names the one that its iteration meets first;
  here the slice is named.
\<close>

datatype gob =
    GUint nat
  | GTime time
  | GString string
  | GBool bool
  | GStructV val
  | GMap "(string, val) fmap"

type_synonym payload = "gob list"

definition registered :: "val \<Rightarrow> bool" where
  "registered v = (case v of VList xs \<Rightarrow> False | VMap kvs \<Rightarrow> False | _ \<Rightarrow> True)"

definition isSlice :: "val \<Rightarrow> bool" where
  "isSlice v = (case v of VList xs \<Rightarrow> True | _ \<Rightarrow> False)"

definition typeName :: "val \<Rightarrow> string" where
  \<comment> \<open>\<open>reflect.Type.String()\<close> of the two types that are not registered\<close>
  "typeName v = (if isSlice v then ''[]interface {}'' else ''map[string]interface {}'')"



definition nameNotRegistered :: "val \<Rightarrow> error" where
  "nameNotRegistered v =
     ''gob: name not registered for interface: '' @ [CHR 0x22] @ typeName v @ [CHR 0x22]"

definition decode_uint8 :: "payload \<Rightarrow> error + (8 word \<times> payload)" where
  "decode_uint8 from =
     (case from of
        GUint n # rest \<Rightarrow> if n < 256 then Inr (of_nat n, rest) else Inl ''value out of range''
      | _ # rest \<Rightarrow> Inl ''type mismatch''
      | [] \<Rightarrow> Inl ''EOF'')"

definition decode_uint64 :: "payload \<Rightarrow> error + (64 word \<times> payload)" where
  "decode_uint64 from =
     (case from of
        GUint n # rest \<Rightarrow>
          if n < 18446744073709551616 then Inr (of_nat n, rest) else Inl ''value out of range''
      | _ # rest \<Rightarrow> Inl ''type mismatch''
      | [] \<Rightarrow> Inl ''EOF'')"

definition decode_time :: "payload \<Rightarrow> error + (time \<times> payload)" where
  "decode_time from =
     (case from of
        GTime t # rest \<Rightarrow> Inr (t, rest)
      | _ # rest \<Rightarrow> Inl ''type mismatch''
      | [] \<Rightarrow> Inl ''EOF'')"

definition decode_string :: "payload \<Rightarrow> error + (string \<times> payload)" where
  "decode_string from =
     (case from of
        GString s # rest \<Rightarrow> Inr (s, rest)
      | _ # rest \<Rightarrow> Inl ''type mismatch''
      | [] \<Rightarrow> Inl ''EOF'')"

definition decode_bool :: "payload \<Rightarrow> error + (bool \<times> payload)" where
  "decode_bool from =
     (case from of
        GBool b # rest \<Rightarrow> Inr (b, rest)
      | _ # rest \<Rightarrow> Inl ''type mismatch''
      | [] \<Rightarrow> Inl ''EOF'')"

definition decode_structV :: "payload \<Rightarrow> error + (val \<times> payload)" where
  "decode_structV from =
     (case from of
        GStructV v # rest \<Rightarrow> if registered v then Inr (v, rest) else Inl (nameNotRegistered v)
      | _ # rest \<Rightarrow> Inl ''type mismatch''
      | [] \<Rightarrow> Inl ''EOF'')"

definition decode_map :: "(string, val) fmap option \<Rightarrow> payload \<Rightarrow> error + ((string, val) fmap \<times> payload)" where
  \<comment> \<open>decoding into a map that is not nil adds the received entries to it\<close>
  "decode_map old from =
     (case from of
        GMap m # rest \<Rightarrow>
          if fmpred (\<lambda>k v. registered v) m
          then Inr ((case old of None \<Rightarrow> m | Some m0 \<Rightarrow> m0 ++\<^sub>f m), rest)
          else Inl (''gob: name not registered for interface: '' @ [CHR 0x22] @
                    (if fmpred (\<lambda>k v. \<not> isSlice v) m then ''map[string]interface {}''
                     else ''[]interface {}'') @ [CHR 0x22])
      | _ # rest \<Rightarrow> Inl ''type mismatch''
      | [] \<Rightarrow> Inl ''EOF'')"

definition GobDecode_user :: "'p config \<Rightarrow> payload \<Rightarrow> Session \<Rightarrow> 'p world \<Rightarrow> (error + (Session \<times> payload)) \<times> 'p world" where
  \<comment> \<open>the part of \<open>GobDecode\<close> under the comment \<open>User\<close>\<close>
  "GobDecode_user C from s w =
     (case decode_bool from of
        Inl err \<Rightarrow> (Inl (''Unable to decode log-in state: '' @ err), w)
      | Inr (loggedIn, f1) \<Rightarrow>
          if loggedIn
          then (case decode_structV f1 of
                  Inl err \<Rightarrow> (Inl (''Unable to decode user ID: '' @ err), w)
                | Inr (userID, f2) \<Rightarrow>
                    (case pLoadUser C userID w of
                       (Inl e, w1) \<Rightarrow> (Inl (''Failed to load user: '' @ e), w1)
                     | (Inr u, w1) \<Rightarrow> (Inr (s\<lparr>user := u\<rparr>, f2), w1)))
          else (Inr (s, f1), w))"

definition GobDecode :: "'p config \<Rightarrow> payload \<Rightarrow> Session \<Rightarrow> 'p world \<Rightarrow> (error + Session) \<times> 'p world" where
  \<comment> \<open>\<open>s\<close> is the receiver; \<open>Inr\<close> is the receiver after a decoding without error\<close>
  "GobDecode C from s w =
     (case decode_uint8 from of
        Inl err \<Rightarrow> (Inl (''Unable to decode session version: '' @ err), w)
      | Inr (version, f1) \<Rightarrow>
     (case decode_time f1 of
        Inl err \<Rightarrow> (Inl (''Unable to decode session creation time: '' @ err), w)
      | Inr (cr, f2) \<Rightarrow>
     (case decode_time f2 of
        Inl err \<Rightarrow> (Inl (''Unable to decode session last access time: '' @ err), w)
      | Inr (la, f3) \<Rightarrow>
     (case decode_string f3 of
        Inl err \<Rightarrow> (Inl (''Unable to decode session remote IP: '' @ err), w)
      | Inr (ip, f4) \<Rightarrow>
     (case decode_uint64 f4 of
        Inl err \<Rightarrow> (Inl (''Unable to decode hash of session remote user agent: '' @ err), w)
      | Inr (ua, f5) \<Rightarrow>
     (case decode_string f5 of
        Inl err \<Rightarrow> (Inl (''Unable to decode session reference ID: '' @ err), w)
      | Inr (rf, f6) \<Rightarrow>
     (case GobDecode_user C f6
             (s\<lparr>created := cr, lastAccess := la, lastIP := ip, lastUserAgentHash := ua,
                referenceID := rf\<rparr>) w of
        (Inl err, w1) \<Rightarrow> (Inl err, w1)
      | (Inr (s1, f7), w1) \<Rightarrow>
     (case decode_map (data s1) f7 of
        Inl err \<Rightarrow> (Inl (''Unable to decode session data: '' @ err), w1)
      | Inr (m, f8) \<Rightarrow> (Inr (s1\<lparr>data := Some m\<rparr>), w1)))))))))"


text \<open>\<open>strconv.ParseUint(s, 36, 64)\<close>: digits and letters of either case, no sign.\<close>

definition digit36 :: "char \<Rightarrow> nat option" where
  "digit36 c =
     (let n = (of_char c :: nat)
      in if 48 \<le> n \<and> n \<le> 57 then Some (n - 48)
         else if 97 \<le> n \<and> n \<le> 122 then Some (n - 97 + 10)
         else if 65 \<le> n \<and> n \<le> 90 then Some (n - 65 + 10)
         else None)"

fun parseUint36_loop :: "string \<Rightarrow> nat \<Rightarrow> error + nat" where
  "parseUint36_loop [] n = Inr n"
| "parseUint36_loop (c # cs) n =
     (case digit36 c of
        None \<Rightarrow> Inl ''invalid syntax''
      | Some d \<Rightarrow>
          if n * 36 + d \<ge> 18446744073709551616 then Inl ''value out of range''
          else parseUint36_loop cs (n * 36 + d))"

definition ParseUint36 :: "string \<Rightarrow> error + 64 word" where
  "ParseUint36 s =
     (if s = [] then Inl ''invalid syntax''
      else (case parseUint36_loop s 0 of Inl err \<Rightarrow> Inl err | Inr n \<Rightarrow> Inr (of_nat n)))"

text \<open>
  \<open>UnmarshalJSON\<close>. \<open>parsed\<close> is the outcome of \<open>json.Unmarshal(data, &obj)\<close>: the error, or
  the object as a map from field names to values. \<open>time_Parse\<close> stands for
  \<open>time.Parse(time.RFC3339, _)\<close>. The receiver \<open>s\<close> is returned after a decoding without
  error.
\<close>

definition UnmarshalJSON_rest :: "'p config \<Rightarrow> (string \<rightharpoonup> val) \<Rightarrow> Session \<Rightarrow> 'p world \<Rightarrow> (error + Session) \<times> 'p world" where
  \<comment> \<open>from the field \<open>rf\<close> on\<close>
  "UnmarshalJSON_rest C obj s w =
     (case (case obj ''rf'' of
              None \<Rightarrow> Inr s
            | Some (VStr r) \<Rightarrow> Inr (s\<lparr>referenceID := r\<rparr>)
            | Some _ \<Rightarrow> Inl ''Invalid reference ID type'') of
        Inl err \<Rightarrow> (Inl err, w)
      | Inr s1 \<Rightarrow>
     (case (case obj ''us'' of
              None \<Rightarrow> (Inr s1, w)
            | Some us \<Rightarrow>
                (case pLoadUser C us w of
                   (Inl e, w1) \<Rightarrow> (Inl (''Error loading user: '' @ e), w1)
                 | (Inr u, w1) \<Rightarrow> (Inr (s1\<lparr>user := u\<rparr>), w1))) of
        (Inl err, w1) \<Rightarrow> (Inl err, w1)
      | (Inr s2, w1) \<Rightarrow>
     (case obj ''da'' of
        None \<Rightarrow> (Inl ''Missing session data'', w1)
      | Some (VMap kvs) \<Rightarrow> (Inr (s2\<lparr>data := Some (fmap_of_list kvs)\<rparr>), w1)
      | Some _ \<Rightarrow> (Inl ''Invalid session data type'', w1))))"

definition UnmarshalJSON :: "'p config \<Rightarrow> (string \<Rightarrow> error + time) \<Rightarrow> error + (string \<rightharpoonup> val) \<Rightarrow> Session \<Rightarrow> 'p world \<Rightarrow> (error + Session) \<times> 'p world" where
  "UnmarshalJSON C time_Parse parsed s w =
     (case parsed of
        Inl err \<Rightarrow> (Inl err, w)
      | Inr obj \<Rightarrow>
     (case obj ''v'' of
        None \<Rightarrow> (Inl ''Missing version number'', w)
      | Some v \<Rightarrow>
     (case v of
        VNum version \<Rightarrow>
          if version \<noteq> 1 then (Inl ''Invalid version'', w)
          else
     (case obj ''cr'' of
        None \<Rightarrow> (Inl ''Missing session creation time'', w)
      | Some (VStr cr) \<Rightarrow>
     (case time_Parse cr of
        Inl err \<Rightarrow> (Inl (''Cannot parse session creation time: '' @ err), w)
      | Inr crt \<Rightarrow>
     (case obj ''la'' of
        None \<Rightarrow> (Inl ''Missing session last access time'', w)
      | Some (VStr la) \<Rightarrow>
     (case time_Parse la of
        Inl err \<Rightarrow> (Inl (''Cannot parse session last access time: '' @ err), w)
      | Inr lat \<Rightarrow>
     (case obj ''ip'' of
        None \<Rightarrow> (Inl ''Missing session remote IP'', w)
      | Some (VStr ip) \<Rightarrow>
     (case obj ''ua'' of
        None \<Rightarrow> (Inl ''Missing hash of session remote user agent'', w)
      | Some (VStr agentHash) \<Rightarrow>
     (case ParseUint36 agentHash of
        Inl err \<Rightarrow> (Inl (''Invalid hash of session remote user agent: '' @ err), w)
      | Inr ua \<Rightarrow>
          UnmarshalJSON_rest C obj
            (s\<lparr>created := crt, lastAccess := lat, lastIP := ip, lastUserAgentHash := ua\<rparr>) w)
      | Some _ \<Rightarrow> (Inl ''Invalid hash of session remote user agent type'', w))
      | Some _ \<Rightarrow> (Inl ''Invalid session remote IP type'', w)))
      | Some _ \<Rightarrow> (Inl ''Invalid session last access type'', w)))
      | Some _ \<Rightarrow> (Inl ''Invalid session creation type'', w))
      | _ \<Rightarrow> (Inl ''Invalid version type'', w))))"

section \<open>Session identifiers (ids.go)\<close>

definition base64_alphabet :: string where
  "base64_alphabet = ''ABCDEFGHIJKLMNOPQRSTUVWXYZabcdefghijklmnopqrstuvwxyz0123456789+/''"

fun base64_EncodeToString :: "8 word list \<Rightarrow> string" where
  \<comment> \<open>\<open>base64.StdEncoding.EncodeToString\<close>\<close>
  "base64_EncodeToString [] = []"
| "base64_EncodeToString [a] =
     (let n = unat a
      in [base64_alphabet ! (n div 4), base64_alphabet ! (n mod 4 * 16), CHR ''='', CHR ''=''])"
| "base64_EncodeToString [a, b] =
     (let n = unat a * 256 + unat b
      in [base64_alphabet ! (n div 1024), base64_alphabet ! (n div 16 mod 64),
          base64_alphabet ! (n mod 16 * 4), CHR ''=''])"
| "base64_EncodeToString (a # b # c # rest) =
     (let n = unat a * 65536 + unat b * 256 + unat c
      in [base64_alphabet ! (n div 262144), base64_alphabet ! (n div 4096 mod 64),
          base64_alphabet ! (n div 64 mod 64), base64_alphabet ! (n mod 64)]
         @ base64_EncodeToString rest)"

definition generateSesssionID :: "'p world \<Rightarrow> (error + string) \<times> 'p world" where
  "generateSesssionID w =
     (let w1 = w\<lparr>randCalls := randCalls w + 1\<rparr>
      in case entropy w (randCalls w) of
           Inl err \<Rightarrow> (Inl (''Could not generate session ID: '' @ err), w1)
         | Inr b \<Rightarrow> (Inr (base64_EncodeToString b), w1))"

section \<open>The request lifecycle (Start, RegenerateID, Destroy)\<close>

text \<open>
  What \<open>Start\<close> reads of the request: the value of the cookie named \<open>SessionCookie\<close>
  (\<open>None\<close> when \<open>request.Cookie\<close> returns an error), the \<open>User-Agent\<close> header and the
  remote address.
\<close>

record request =
  reqCookie :: "string option"
  UserAgent :: string
  RemoteAddr :: string

definition fnv64a :: "string \<Rightarrow> 64 word" where
  \<comment> \<open>\<open>fnv.New64a\<close>, the string written to it, \<open>Sum64\<close>\<close>
  "fnv64a s = fold (\<lambda>c h. (h XOR of_nat (of_char c)) * 1099511628211) s 14695981039346656037"

text \<open>
  The regular expression \<open>^(\d+).(\d+).(\d+).(\d+):\d+$\<close> as a sequence of atoms, and a
  backtracking matcher that prefers the longest run of digits first, as the leftmost-first
  semantics of Go's regexp does. A character of the model is a byte of the Go string.
  \<open>\d\<close> is an ASCII digit; \<open>.\<close> is any rune other than a newline, so it takes the bytes of
  one UTF-8 encoded rune, as \<open>utf8.DecodeRuneInString\<close> delimits it: a byte that does not
  start a well-formed encoding is a rune of width 1. The result is the list of the
  captured groups.
\<close>

datatype atom = Digits bool | AnyChar | Lit char

definition is_digit :: "char \<Rightarrow> bool" where
  "is_digit c = (48 \<le> (of_char c :: nat) \<and> (of_char c :: nat) \<le> 57)"

fun first_some :: "'a option list \<Rightarrow> 'a option" where
  "first_some [] = None"
| "first_some (None # xs) = first_some xs"
| "first_some (Some x # xs) = Some x"

definition continuation :: "char \<Rightarrow> bool" where
  "continuation c = (128 \<le> (of_char c :: nat) \<and> (of_char c :: nat) \<le> 191)"

definition secondByte :: "nat \<Rightarrow> char \<Rightarrow> bool" where
  \<comment> \<open>the range of the second byte after the first byte \<open>b\<close>\<close>
  "secondByte b c =
     ((if b = 224 then 160 else if b = 240 then 144 else 128) \<le> (of_char c :: nat) \<and>
      (of_char c :: nat) \<le> (if b = 237 then 159 else if b = 244 then 143 else 191))"

fun runeWidth :: "string \<Rightarrow> nat" where
  \<comment> \<open>the size that \<open>utf8.DecodeRuneInString\<close> returns\<close>
  "runeWidth [] = 0"
| "runeWidth (x # xs) =
     (let b = (of_char x :: nat)
      in if b < 128 then 1
         else if 194 \<le> b \<and> b \<le> 223
         then (case xs of
                 c1 # rest \<Rightarrow> if continuation c1 then 2 else 1
               | _ \<Rightarrow> 1)
         else if 224 \<le> b \<and> b \<le> 239
         then (case xs of
                 c1 # c2 # rest \<Rightarrow> if secondByte b c1 \<and> continuation c2 then 3 else 1
               | _ \<Rightarrow> 1)
         else if 240 \<le> b \<and> b \<le> 244
         then (case xs of
                 c1 # c2 # c3 # rest \<Rightarrow>
                   if secondByte b c1 \<and> continuation c2 \<and> continuation c3 then 4 else 1
               | _ \<Rightarrow> 1)
         else 1)"

fun rx_match :: "atom list \<Rightarrow> string \<Rightarrow> string list option" where
  "rx_match [] s = (if s = [] then Some [] else None)"
| "rx_match (Lit c # r) s =
     (case s of [] \<Rightarrow> None | x # xs \<Rightarrow> if x = c then rx_match r xs else None)"
| "rx_match (AnyChar # r) s =
     (case s of
        [] \<Rightarrow> None
      | x # xs \<Rightarrow> if x = CHR 0x0A then None else rx_match r (drop (runeWidth s) s))"
| "rx_match (Digits captured # r) s =
     first_some
       (map (\<lambda>n. map_option (\<lambda>groups. if captured then take n s # groups else groups)
                    (rx_match r (drop n s)))
            (rev [1..<Suc (length (takeWhile is_digit s))]))"

definition ipFormat :: "atom list" where
  "ipFormat = [Digits True, AnyChar, Digits True, AnyChar, Digits True, AnyChar, Digits True,
               Lit (CHR '':''), Digits False]"

definition FindStringSubmatch :: "atom list \<Rightarrow> string \<Rightarrow> string list" where
  \<comment> \<open>the whole match and the groups, or the empty (nil) slice\<close>
  "FindStringSubmatch re s = (case rx_match re s of None \<Rightarrow> [] | Some groups \<Rightarrow> s # groups)"

function ip_loop :: "int \<Rightarrow> int \<Rightarrow> string list \<Rightarrow> string list \<Rightarrow> bool" where
  \<comment> \<open>\<open>for i := 1; i < AcceptRemoteIP; i++\<close>: the value of \<open>valid\<close> after the loop\<close>
  "ip_loop i k previousIP currentIP =
     (if i < k
      then (if previousIP ! nat i \<noteq> currentIP ! nat i then False
            else ip_loop (i + 1) k previousIP currentIP)
      else True)"
  by pat_completeness auto
termination
  by (relation "measure (\<lambda>(i, k, p, c). nat (k - i))") auto

declare ip_loop.simps [simp del]

definition ipCheck :: "'p config \<Rightarrow> bool \<Rightarrow> string \<Rightarrow> string \<Rightarrow> bool" where
  \<comment> \<open>the block \<open>Has the remote IP changed too much?\<close>: \<open>valid\<close> after it\<close>
  "ipCheck C valid ip remoteAddr =
     (if valid \<and> AcceptRemoteIP C > 1
      then (let previousIP = FindStringSubmatch ipFormat ip;
                currentIP = FindStringSubmatch ipFormat remoteAddr
            in if length previousIP = 5 \<and> length currentIP = 5 \<and> AcceptRemoteIP C \<le> 4
               then ip_loop 1 (AcceptRemoteIP C) previousIP currentIP
               else valid)
      else valid)"

definition Start_valid :: "'p config \<Rightarrow> request \<Rightarrow> 64 word \<Rightarrow> time \<Rightarrow> Session \<Rightarrow> bool" where
  \<comment> \<open>the flag \<open>valid\<close> before \<open>if !valid\<close>\<close>
  "Start_valid C r agentHash t s =
     (let timeUntouched = time_Since t (lastAccess s);
          valid1 = (\<not> timeUntouched \<ge> SessionExpiry C);
          valid2 = ipCheck C valid1 (lastIP s) (RemoteAddr r)
      in if valid2 \<and> \<not> AcceptChangingUserAgent C
         then lastUserAgentHash s = agentHash
         else valid2)"

definition requestCookie :: "'p config \<Rightarrow> string \<Rightarrow> cookie" where
  \<comment> \<open>the cookie \<open>request.Cookie(SessionCookie)\<close> returns: a name and a value\<close>
  "requestCookie C v =
     \<lparr>cName = SessionCookie C, cValue = v, cExpires = zeroTime, cMaxAge = 0,
      cHttpOnly = False, cSecure = False, cDomain = [], cPath = []\<rparr>"

definition SetCookie :: "cookie \<Rightarrow> 'p world \<Rightarrow> 'p world" where
  \<comment> \<open>\<open>http.SetCookie\<close> with a valid cookie name: one more \<open>Set-Cookie\<close> header\<close>
  "SetCookie c w = w\<lparr>response := response w @ [c]\<rparr>"

definition deleteCookie :: "cookie \<Rightarrow> 'p world \<Rightarrow> 'p world" where
  "deleteCookie c w = SetCookie (c\<lparr>cValue := ''deleted'', cExpires := 0, cMaxAge := - 1\<rparr>) w"

definition sessionCookie :: "'p config \<Rightarrow> string \<Rightarrow> 'p world \<Rightarrow> cookie" where
  \<comment> \<open>\<open>cookie := NewSessionCookie(); cookie.Name = SessionCookie; cookie.Value = v\<close>\<close>
  "sessionCookie C v w = (NewSessionCookie C (now w))\<lparr>cName := SessionCookie C, cValue := v\<rparr>"

definition Destroy :: "'p config \<Rightarrow> request \<Rightarrow> nat \<Rightarrow> 'p world \<Rightarrow> error option \<times> 'p world" where
  "Destroy C r a w =
     (case cache_Delete C (sid (heap w a)) w of
        (Some err, w1) \<Rightarrow> (Some (''Could not delete session from cache: '' @ err), w1)
      | (None, w1) \<Rightarrow>
          (case reqCookie r of
             None \<Rightarrow> (Some ''Could not retrieve session cookie: http: named cookie not present'', w1)
           | Some v \<Rightarrow> (None, deleteCookie (requestCookie C v) w1)))"

definition RegenerateID :: "'p config \<Rightarrow> nat \<Rightarrow> 'p world \<Rightarrow> error option \<times> 'p world" where
  \<comment> \<open>the goroutine that deletes the reference session after the grace period is
      recorded in \<open>timers\<close>\<close>
  "RegenerateID C a w =
     (let oldID = sid (heap w a)
      in case generateSesssionID w of
           (Inl err, w1) \<Rightarrow> (Some (''Could not generate replacement session ID: '' @ err), w1)
         | (Inr i, w1) \<Rightarrow>
             (let w2 = w1\<lparr>heap := (heap w1)(a := (heap w1 a)\<lparr>sid := i, created := now w1\<rparr>)\<rparr>
              in case cache_Set C a w2 of
                   (Some err, w3) \<Rightarrow>
                     (Some (''Could not save session under new session ID: '' @ err), w3)
                 | (None, w3) \<Rightarrow>
                     (let refSession =
                            \<lparr>sid = oldID, user = None, created = created (heap w3 a),
                             lastAccess = now w3 + wrap64 (- SessionIDExpiry C),
                             lastIP = lastIP (heap w3 a),
                             lastUserAgentHash = lastUserAgentHash (heap w3 a),
                             referenceID = i, data = None\<rparr>;
                          b = nextAddr w3;
                          w4 = w3\<lparr>heap := (heap w3)(b := refSession), nextAddr := b + 1\<rparr>
                      in case cache_Set C b w4 of
                           (Some err, w5) \<Rightarrow>
                             (Some (''Could not save reference session: '' @ err), w5)
                         | (None, w5) \<Rightarrow>
                             (None, SetCookie (sessionCookie C i w5)
                                      (w5\<lparr>timers := timers w5 @ [(SessionIDGracePeriod C, oldID)]\<rparr>)))))"

definition Start_touch :: "request \<Rightarrow> 64 word \<Rightarrow> nat \<Rightarrow> 'p world \<Rightarrow> 'p world" where
  \<comment> \<open>\<open>We have a valid session\<close>: the three assignments before \<open>return session, nil\<close>\<close>
  "Start_touch r agentHash a w =
     w\<lparr>heap := (heap w)(a := (heap w a)\<lparr>lastAccess := now w, lastIP := RemoteAddr r,
                                           lastUserAgentHash := agentHash\<rparr>)\<rparr>"

definition Start_new :: "'p config \<Rightarrow> request \<Rightarrow> 64 word \<Rightarrow> bool \<Rightarrow> 'p world \<Rightarrow> (error + nat option) \<times> 'p world" where
  \<comment> \<open>the block \<open>if session == nil\<close>\<close>
  "Start_new C r agentHash createIfNew w =
     (if \<not> createIfNew then (Inr None, w)
      else (case generateSesssionID w of
              (Inl err, w1) \<Rightarrow> (Inl (''Could not generate new session ID: '' @ err), w1)
            | (Inr i, w1) \<Rightarrow>
                (let session = \<lparr>sid = i, user = None, created = now w1, lastAccess = now w1,
                                lastIP = RemoteAddr r, lastUserAgentHash = agentHash,
                                referenceID = [], data = Some fmempty\<rparr>;
                     a = nextAddr w1;
                     w2 = w1\<lparr>heap := (heap w1)(a := session), nextAddr := a + 1\<rparr>;
                     w3 = snd (cache_Set C a w2)
                 in (Inr (Some a), SetCookie (sessionCookie C i w3) w3))))"

definition Start_reference :: "'p config \<Rightarrow> request \<Rightarrow> 64 word \<Rightarrow> nat \<Rightarrow> 'p world \<Rightarrow> (error + nat option) \<times> 'p world" where
  \<comment> \<open>from \<open>If this is a reference session, get the original one\<close> to the return\<close>
  "Start_reference C r agentHash a w =
     (if referenceID (heap w a) \<noteq> []
      then (let w1 = SetCookie (sessionCookie C (referenceID (heap w a)) w) w
            in case cache_Get C (referenceID (heap w1 a)) w1 of
                 (Inl err, w2) \<Rightarrow> (Inl (''Could not get referenced session: '' @ err), w2)
               | (Inr None, w2) \<Rightarrow> (Inl ''Reference session not found'', w2)
               | (Inr (Some b), w2) \<Rightarrow> (Inr (Some b), Start_touch r agentHash b w2))
      else (Inr (Some a), Start_touch r agentHash a w))"

definition Start_found :: "'p config \<Rightarrow> request \<Rightarrow> 64 word \<Rightarrow> bool \<Rightarrow> string \<Rightarrow> nat \<Rightarrow> 'p world \<Rightarrow> (error + nat option) \<times> 'p world" where
  \<comment> \<open>the block \<open>if session != nil\<close>, for the session at address \<open>a\<close> fetched under the
      cookie value \<open>i\<close>\<close>
  "Start_found C r agentHash createIfNew i a w =
     (let age = time_Since (now w) (created (heap w a))
      in if \<not> Start_valid C r agentHash (now w) (heap w a)
         then (case Destroy C r a w of
                 (Some err, w1) \<Rightarrow> (Inl (''Could not destroy expired session: '' @ err), w1)
               | (None, w1) \<Rightarrow> Start_new C r agentHash createIfNew w1)
         else if referenceID (heap w a) = [] \<and> age \<ge> SessionIDExpiry C
         then (case RegenerateID C a w of
                 (Some err, w1) \<Rightarrow> (Inl err, w1)
               | (None, w1) \<Rightarrow> Start_reference C r agentHash a w1)
         else if age \<ge> wrap64 (SessionIDExpiry C + SessionIDGracePeriod C)
         then (case cache_Delete C i w of
                 (Some err, w1) \<Rightarrow> (Inl (''Could not delete session with expired ID: '' @ err), w1)
               | (None, w1) \<Rightarrow> (Inl ''Session expired'', w1))
         else Start_reference C r agentHash a w)"

definition userAgentHash :: "request \<Rightarrow> 64 word" where
  \<comment> \<open>the block \<open>We may need this hash later\<close>\<close>
  "userAgentHash r = (if UserAgent r \<noteq> [] then fnv64a (UserAgent r) else 0)"

definition Start :: "'p config \<Rightarrow> request \<Rightarrow> bool \<Rightarrow> 'p world \<Rightarrow> (error + nat option) \<times> 'p world" where
  \<comment> \<open>\<open>Inl\<close> is the returned error, \<open>Inr None\<close> the nil session, \<open>Inr (Some a)\<close> the
      session object at address \<open>a\<close>. The lock on the session ID is free at the call and
      is released at the return.\<close>
  "Start C r createIfNew w =
     (let agentHash = userAgentHash r;
          i = (case reqCookie r of Some v \<Rightarrow> v | None \<Rightarrow> [])
      in if length i = 24
         then (case cache_Get C i w of
                 (Inl err, w1) \<Rightarrow> (Inl (''Could not get session from cache: '' @ err), w1)
               | (Inr None, w1) \<Rightarrow>
                   Start_new C r agentHash createIfNew (deleteCookie (requestCookie C i) w1)
               | (Inr (Some a), w1) \<Rightarrow> Start_found C r agentHash createIfNew i a w1)
         else Start_new C r agentHash createIfNew w)"

section \<open>User-scoped operations (LogOut, RefreshUser)\<close>





section \<open>Fixtures for concrete runs\<close>

text \<open>
  A state with an empty cache, a backend without state, and a source of randomness that
  returns sixteen zero bytes; a configuration whose backend fails every \<open>SaveSession\<close>.
\<close>

definition emptyWorld :: "unit world" where
  "emptyWorld =
     \<lparr>now = 0, heap = (\<lambda>a. newSession), nextAddr = 0, cache = [], store = (), trace = [],
      entropy = (\<lambda>n. Inr [0, 0, 0, 0, 0, 0, 0, 0, 0, 0, 0, 0, 0, 0, 0, 0]), randCalls = 0, timers = [], response = []\<rparr>"

definition failingSave :: "unit config" where
  "failingSave =
     defaultConfig\<lparr>Persistence :=
       ExtendablePersistenceLayer\<lparr>SaveSession := (\<lambda>i s p. (Some ''disk full'', p))\<rparr>\<rparr>"



definition exampleID :: string where
  "exampleID = ''01234567890123456789----''"

definition secondID :: string where
  "secondID = ''ABCDEFGHIJKLMNOPQRSTUVWX''"

definition thirdID :: string where
  "thirdID = ''abcdefghijklmnopqrstuvwx''"

definition exampleRequest :: request where
  "exampleRequest =
     \<lparr>reqCookie = Some exampleID, UserAgent = [], RemoteAddr = ''192.168.178.1:80''\<rparr>"

definition agedWorld :: "unit world" where
  "agedWorld =
     emptyWorld\<lparr>now := 2 * hour,
       heap := (heap emptyWorld)
         (0 := newSession\<lparr>sid := exampleID, created := 0, lastAccess := 0,
                            lastIP := ''192.168.178.1:80'', data := Some fmempty\<rparr>),
       nextAddr := 1, cache := [(exampleID, 0)]\<rparr>"

definition shadowWorld :: "unit world" where
  "shadowWorld =
     emptyWorld\<lparr>now := 2 * hour,
       heap := (heap emptyWorld)
         (0 := newSession\<lparr>sid := exampleID, created := 0, lastAccess := 0,
                            lastIP := ''192.168.178.1:80'', referenceID := secondID\<rparr>),
       nextAddr := 1, cache := [(exampleID, 0)]\<rparr>"

definition chainWorld :: "unit world" where
  "chainWorld =
     emptyWorld\<lparr>now := minute,
       heap := (heap emptyWorld)
         (0 := newSession\<lparr>sid := exampleID, created := 0, lastAccess := 0,
                            lastIP := ''192.168.178.1:80'', referenceID := secondID\<rparr>,
          1 := newSession\<lparr>sid := secondID, created := 0, lastAccess := 0,
                            lastIP := ''192.168.178.1:80'', referenceID := thirdID\<rparr>),
       nextAddr := 2, cache := [(exampleID, 0), (secondID, 1)]\<rparr>"







definition neverRotate :: "unit config" where
  \<comment> \<open>the default configuration with the rotation interval at the largest Duration\<close>
  "neverRotate = defaultConfig\<lparr>SessionIDExpiry := maxInt64\<rparr>"

section \<open>Auxiliary notions for the proofs\<close>

text \<open>
  The address format of the specification, \<open>a.b.c.d:p\<close>: four runs of decimal digits
  separated by dots, a colon, and a run of decimal digits.
\<close>

definition digits :: "string \<Rightarrow> bool" where
  "digits s \<longleftrightarrow> s \<noteq> [] \<and> list_all is_digit s"

definition ipv4_port :: "string \<Rightarrow> string \<Rightarrow> string \<Rightarrow> string \<Rightarrow> string \<Rightarrow> string" where
  "ipv4_port a b c d p = a @ ''.'' @ b @ ''.'' @ c @ ''.'' @ d @ '':'' @ p"


text \<open>
  \<open>unchanged w w'\<close>: the step from \<open>w\<close> to \<open>w'\<close> leaves the clock, the session
  objects, the allocation pointer, the response, the timers and the source of randomness
  as they are, and only adds calls to the trace.
\<close>

definition unchanged :: "'p world \<Rightarrow> 'p world \<Rightarrow> bool" where
  "unchanged w w' \<longleftrightarrow>
     now w' = now w \<and> heap w' = heap w \<and> nextAddr w' = nextAddr w \<and>
     response w' = response w \<and> timers w' = timers w \<and> entropy w' = entropy w \<and>
     randCalls w' = randCalls w \<and> (\<exists>tr. trace w' = trace w @ tr)"

text \<open>
  Properties of the cache at a call. \<open>cache_allocated\<close>: every pointer in the cache is
  below the allocation pointer. \<open>cache_consistent\<close>: every session is cached under its own
  identifier. \<open>cache_fresh\<close>: no cached session has been idle for longer than
  \<open>SessionCacheExpiry\<close>, so the first loop of \<open>compact\<close> removes nothing. \<open>cache_fits\<close>:
  the cache is not above \<open>MaxSessionCacheSize\<close>, so the second loop removes nothing when
  no entry is added.
\<close>

definition cache_allocated :: "'p world \<Rightarrow> bool" where
  "cache_allocated w = list_all (\<lambda>(k, a). a < nextAddr w) (cache w)"

definition cache_consistent :: "'p world \<Rightarrow> bool" where
  "cache_consistent w = list_all (\<lambda>(k, a). sid (heap w a) = k) (cache w)"

definition cache_fresh :: "'p config \<Rightarrow> 'p world \<Rightarrow> bool" where
  "cache_fresh C w =
     list_all (\<lambda>(k, a). \<not> time_Since (now w) (lastAccess (heap w a)) > SessionCacheExpiry C)
       (cache w)"


section \<open>Properties of the keyed lock registry\<close>

lemma purge_loop_keeps:
  "map_of items k = Some it \<Longrightarrow>
   \<not> time_Since t (mi_lastAccess it) > mutexStaleMutexes G \<Longrightarrow>
   mi_locks it \<noteq> 0 \<Longrightarrow>
   \<forall>(k', it') \<in> set todo. k' = k \<longrightarrow> it' = it \<Longrightarrow>
   map_of (purge_loop t G todo items) k = Some it"
proof (induction todo arbitrary: items)
  case Nil
  then show ?case by simp
next
  case (Cons e todo)
  obtain key item where e: "e = (key, item)" by (cases e)
  show ?case
  proof (cases "key = k")
    case True
    with Cons.prems e have "item = it" by simp
    with Cons e True show ?thesis by simp
  next
    case False
    with Cons.prems have "map_of (AList.delete key items) k = Some it"
      by (simp add: delete_conv)
    with Cons e False show ?thesis by simp
  qed
qed

lemma purge_keeps_held_fresh:
  "distinct (map fst items) \<Longrightarrow> (k, it) \<in> set items \<Longrightarrow>
   time_Since t (mi_lastAccess it) \<le> mutexStaleMutexes G \<Longrightarrow> mi_locks it \<noteq> 0 \<Longrightarrow>
   map_of (purge t G items) k = Some it"
  unfolding purge_def
  by (rule purge_loop_keeps) (auto dest: eq_key_imp_eq_value)

text \<open>Every entry that is stale when it is visited is removed, whether it is held or not.\<close>

lemma purge_loop_absent:
  "map_of items k = None \<Longrightarrow> map_of (purge_loop t G todo items) k = None"
proof (induction todo arbitrary: items)
  case Nil
  then show ?case by simp
next
  case (Cons e todo)
  obtain key item where e: "e = (key, item)" by (cases e)
  from Cons.prems have "map_of (AList.delete key items) k = None"
    by (simp add: delete_conv')
  with Cons e show ?case by simp
qed

lemma purge_loop_removes_stale:
  "(k, it) \<in> set todo \<Longrightarrow> time_Since t (mi_lastAccess it) > mutexStaleMutexes G \<Longrightarrow>
   map_of (purge_loop t G todo items) k = None"
proof (induction todo arbitrary: items)
  case Nil
  then show ?case by simp
next
  case (Cons e todo)
  obtain key item where e: "e = (key, item)" by (cases e)
  show ?case
  proof (cases "e = (k, it)")
    case True
    have "map_of (AList.delete k items) k = None" by (simp add: delete_conv')
    from purge_loop_absent [OF this] True Cons.prems(2) show ?thesis by simp
  next
    case False
    with Cons.prems have "(k, it) \<in> set todo" by simp
    from Cons.IH [OF this Cons.prems(2)] e show ?thesis by simp
  qed
qed

lemma purge_removes_stale:
  "(k, it) \<in> set items \<Longrightarrow> time_Since t (mi_lastAccess it) > mutexStaleMutexes G \<Longrightarrow>
   map_of (purge t G items) k = None"
  unfolding purge_def by (rule purge_loop_removes_stale)

text \<open>
  C1. The claim is that the purge step never evicts an entry that is held. In the
  condition of the loop \<open>&&\<close> binds tighter than \<open>||\<close>, so the test \<open>item.locks == 0\<close>
  guards the size disjunct only: an entry idle for longer than \<open>mutexStaleMutexes\<close> is
  removed with its lock held (\<open>purge_removes_stale\<close>; an entry that is held and not stale
  stays, \<open>purge_keeps_held_fresh\<close>). Here the key \<open>''k''\<close> has one holder, was last accessed
  at time 0, and the purge runs two hours later with the default thresholds.
\<close>

theorem purge_evicts_held_stale:
  "purge (2 * hour) defaultMutexConfig [(''k'', \<lparr>mi_locks = 1, mi_lastAccess = 0\<rparr>)] = []"
  by (simp add: purge_def defaultMutexConfig_def hour_def time_Since_def sat64_def
      maxInt64_def minInt64_def)

section \<open>Properties of the session cache\<close>

text \<open>
  The second loop of \<open>compact\<close> always finds a cached session: while it runs the cache is
  not empty, and the inner loop ends on one of its keys.
\<close>

lemma findOldest_key:
  "snd (findOldest h c acc) \<in> insert (snd acc) (fst ` set c)"
proof (induction c arbitrary: acc)
  case Nil
  show ?case by simp
next
  case (Cons e c)
  obtain i a where e: "e = (i, a)" by (cases e)
  obtain t k where acc: "acc = (t, k)" by (cases acc)
  from Cons [of "(lastAccess (h a), i)"] Cons [of "(t, k)"] e acc show ?case
    by (auto split: if_splits)
qed

lemma findOldest_cached:
  assumes "c \<noteq> []"
  shows "map_of c (snd (findOldest h c (zeroTime, []))) \<noteq> None"
proof -
  from assms obtain i a rest where c: "c = (i, a) # rest" by (cases c) auto
  have "snd (findOldest h c (zeroTime, [])) \<in> fst ` set c"
    using findOldest_key [of h rest "(lastAccess (h a), i)"] c by auto
  then show ?thesis by (simp add: map_of_eq_None_iff)
qed

lemma compact_drop_finds_session:
  assumes "requiredSpace \<le> MaxSessionCacheSize C"
      and "int (length (cache w)) + requiredSpace > MaxSessionCacheSize C"
  shows "map_of (cache w) (snd (findOldest (heap w) (cache w) (zeroTime, []))) \<noteq> None"
proof -
  from assms have "cache w \<noteq> []" by auto
  then show ?thesis by (rule findOldest_cached)
qed

lemma unchanged_refl [simp]: "unchanged w w"
  by (simp add: unchanged_def)

lemma unchanged_trans: "unchanged w w1 \<Longrightarrow> unchanged w1 w2 \<Longrightarrow> unchanged w w2"
  by (auto simp: unchanged_def)

lemma unchanged_cache_upd [simp]: "unchanged (w\<lparr>cache := c\<rparr>) w' = unchanged w w'"
  by (simp add: unchanged_def)

lemma pSaveSession_unchanged:
  "pSaveSession C i a w = (r, w') \<Longrightarrow> unchanged w w' \<and> cache w' = cache w"
  by (auto simp: pSaveSession_def unchanged_def split: prod.splits)

lemma pLoadSession_unchanged:
  "pLoadSession C i w = (r, w') \<Longrightarrow> unchanged w w' \<and> cache w' = cache w"
  by (auto simp: pLoadSession_def unchanged_def split: prod.splits)

lemma pDeleteSession_unchanged:
  "pDeleteSession C i w = (r, w') \<Longrightarrow> unchanged w w' \<and> cache w' = cache w"
  by (auto simp: pDeleteSession_def unchanged_def split: prod.splits)

lemma set_delete_subset: "set (AList.delete k c) \<subseteq> set c"
  by (auto simp: AList.delete_eq)

lemma compact_old_frame:
  "compact_old C todo w = (r, w') \<Longrightarrow> unchanged w w' \<and> set (cache w') \<subseteq> set (cache w)"
proof (induction todo arbitrary: w)
  case Nil
  then show ?case by simp
next
  case (Cons e todo)
  obtain i a where e: "e = (i, a)" by (cases e)
  show ?case
  proof (cases "time_Since (now w) (lastAccess (heap w a)) > SessionCacheExpiry C")
    case False
    with Cons e show ?thesis by simp
  next
    case True
    obtain r1 w1 where s: "pSaveSession C i a w = (r1, w1)" by (cases "pSaveSession C i a w")
    note f = pSaveSession_unchanged [OF s]
    show ?thesis
    proof (cases r1)
      case (Some err)
      with Cons.prems e True s f show ?thesis by simp
    next
      case None
      with Cons.prems e True s
      have "compact_old C todo (w1\<lparr>cache := AList.delete i (cache w1)\<rparr>) = (r, w')" by simp
      from Cons.IH [OF this] f set_delete_subset [of i "cache w"] show ?thesis
        by (auto intro: unchanged_trans)
    qed
  qed
qed

lemma compact_drop_frame:
  "compact_drop C req d w = (r, w') \<Longrightarrow> unchanged w w' \<and> set (cache w') \<subseteq> set (cache w)"
proof (induction C req d w rule: compact_drop.induct)
  case (1 C requiredSpace dropped w)
  let ?k = "snd (findOldest (heap w) (cache w) (zeroTime, []))"
  note unf = compact_drop.simps [of C requiredSpace dropped w]
  show ?case
  proof (cases "int (length (cache w)) + requiredSpace > MaxSessionCacheSize C")
    case False
    with "1.prems" show ?thesis by (simp add: unf)
  next
    case True
    show ?thesis
    proof (cases "map_of (cache w) ?k")
      case None
      with "1.prems" True show ?thesis by (simp add: unf)
    next
      case (Some a)
      obtain r1 w1 where s: "pSaveSession C ?k a w = (r1, w1)" by (cases "pSaveSession C ?k a w")
      note f = pSaveSession_unchanged [OF s]
      show ?thesis
      proof (cases r1)
        case (Some err)
        with "1.prems" True \<open>map_of (cache w) ?k = Some a\<close> s f show ?thesis
          by (simp add: unf)
      next
        case None
        with "1.prems" True \<open>map_of (cache w) ?k = Some a\<close> s
        have c: "compact_drop C requiredSpace (dropped + 1)
                   (w1\<lparr>cache := AList.delete ?k (cache w1)\<rparr>) = (r, w')"
          by (simp add: unf)
        have "unchanged (w1\<lparr>cache := AList.delete ?k (cache w1)\<rparr>) w' \<and>
              set (cache w') \<subseteq> set (cache (w1\<lparr>cache := AList.delete ?k (cache w1)\<rparr>))"
          using "1.IH" [OF True refl \<open>map_of (cache w) ?k = Some a\<close> s [symmetric] None c] .
        with f set_delete_subset [of ?k "cache w"] show ?thesis
          by (auto intro: unchanged_trans)
      qed
    qed
  qed
qed

lemma cache_compact_frame:
  assumes c: "cache_compact C req w = (r, w')"
  shows "unchanged w w' \<and> set (cache w') \<subseteq> set (cache w)"
proof -
  obtain r1 w1 where o: "compact_old C (cache w) w = (r1, w1)"
    by (cases "compact_old C (cache w) w")
  note f1 = compact_old_frame [OF o]
  show ?thesis
  proof (cases r1)
    case (Some err)
    with c o f1 show ?thesis by (simp add: cache_compact_def)
  next
    case None
    show ?thesis
    proof (cases "MaxSessionCacheSize C < 0 \<or>
                  int (length (cache w1)) + req \<le> MaxSessionCacheSize C")
      case True
      with c o None f1 show ?thesis by (auto simp: cache_compact_def)
    next
      case False
      with c o None
      have "compact_drop C (if req > MaxSessionCacheSize C then MaxSessionCacheSize C else req)
              0 w1 = (r, w')"
        by (simp add: cache_compact_def)
      from compact_drop_frame [OF this] f1 show ?thesis
        by (auto intro: unchanged_trans)
    qed
  qed
qed

lemma cache_Get_cached: "map_of (cache w) i = Some a \<Longrightarrow> cache_Get C i w = (Inr (Some a), w)"
  by (simp add: cache_Get_def)

lemma cache_Get_env:
  assumes "cache_Get C i w = (r, w')"
  shows "now w' = now w \<and> response w' = response w \<and> timers w' = timers w \<and>
         entropy w' = entropy w \<and> randCalls w' = randCalls w"
proof (cases "map_of (cache w) i")
  case (Some a)
  with assms show ?thesis by (simp add: cache_Get_def)
next
  case None
  obtain r1 w1 where l: "pLoadSession C i w = (r1, w1)" by (cases "pLoadSession C i w")
  note f = pLoadSession_unchanged [OF l]
  show ?thesis
  proof (cases r1)
    case (Inl err)
    with assms None l f show ?thesis by (auto simp: cache_Get_def unchanged_def)
  next
    case (Inr so)
    show ?thesis
    proof (cases so)
      case None
      with assms \<open>map_of (cache w) i = None\<close> l f Inr show ?thesis
        by (auto simp: cache_Get_def unchanged_def)
    next
      case (Some s)
      let ?w2 = "w1\<lparr>heap := (heap w1)(nextAddr w1 := s), nextAddr := nextAddr w1 + 1\<rparr>"
      obtain r3 w3 where c: "cache_compact C 1 ?w2 = (r3, w3)" by (cases "cache_compact C 1 ?w2")
      note g = cache_compact_frame [OF c]
      from assms \<open>map_of (cache w) i = None\<close> l Inr Some c f g show ?thesis
        by (auto simp: cache_Get_def unchanged_def Let_def split: if_splits)
    qed
  qed
qed


lemma cache_Set_effect:
  assumes "cache_Set C a w = (r, w')"
  shows "r = None \<and> now w' = now w \<and> response w' = response w \<and> timers w' = timers w \<and>
         entropy w' = entropy w \<and> randCalls w' = randCalls w \<and> nextAddr w' = nextAddr w \<and>
         heap w' = (heap w)(a := (heap w a)\<lparr>lastAccess := now w\<rparr>) \<and>
         (\<exists>tr. trace w' = trace w @ tr
                  @ [ESaveSession (sid (heap w a)) ((heap w a)\<lparr>lastAccess := now w\<rparr>)]) \<and>
         (MaxSessionCacheSize C \<noteq> 0 \<longrightarrow> map_of (cache w') (sid (heap w a)) = Some a)"
proof -
  let ?w1 = "w\<lparr>heap := (heap w)(a := (heap w a)\<lparr>lastAccess := now w\<rparr>)\<rparr>"
  let ?i = "sid (heap w a)"
  let ?req = "if map_of (cache w) ?i = None then 1 else 0 :: int"
  obtain r2 w2 where c: "cache_compact C ?req ?w1 = (r2, w2)" by (cases "cache_compact C ?req ?w1")
  note g = cache_compact_frame [OF c]
  from g have h2: "heap w2 a = (heap w a)\<lparr>lastAccess := now w\<rparr>"
    by (simp add: unchanged_def)
  show ?thesis
  proof (cases "MaxSessionCacheSize C = 0")
    case True
    obtain r4 w4 where s: "pSaveSession C ?i a w2 = (r4, w4)" by (cases "pSaveSession C ?i a w2")
    note f = pSaveSession_unchanged [OF s]
    from assms c s True have w': "w' = w4" and r: "r = None"
      by (auto simp: cache_Set_def Let_def split: option.splits)
    from s h2 have tr: "trace w4 = trace w2 @ [ESaveSession ?i ((heap w a)\<lparr>lastAccess := now w\<rparr>)]"
      by (auto simp: pSaveSession_def split: prod.splits)
    from f g w' r tr True show ?thesis
      by (auto simp: unchanged_def)
  next
    case False
    let ?w3 = "w2\<lparr>cache := AList.update ?i a (cache w2)\<rparr>"
    obtain r4 w4 where s: "pSaveSession C ?i a ?w3 = (r4, w4)" by (cases "pSaveSession C ?i a ?w3")
    note f = pSaveSession_unchanged [OF s]
    from assms c s False have w': "w' = w4" and r: "r = None"
      by (auto simp: cache_Set_def Let_def split: option.splits)
    from s h2 have tr: "trace w4 = trace w2 @ [ESaveSession ?i ((heap w a)\<lparr>lastAccess := now w\<rparr>)]"
      by (auto simp: pSaveSession_def split: prod.splits)
    from f g w' r tr False show ?thesis
      by (auto simp: unchanged_def update_conv')
  qed
qed

lemma cache_Delete_effect:
  assumes "cache_Delete C i w = (r, w')"
  shows "unchanged w w' \<and> map_of (cache w') i = None \<and> trace w' = trace w @ [EDeleteSession i] \<and>
         r = fst (DeleteSession (Persistence C) i (store w))"
  using assms
  by (auto simp: cache_Delete_def pDeleteSession_def unchanged_def delete_conv' split: prod.splits)


lemma pSaveSession_frame:
  "pSaveSession C i a w = (r, w') \<Longrightarrow>
   heap w' = heap w \<and> cache w' = cache w \<and> now w' = now w \<and> nextAddr w' = nextAddr w \<and>
   response w' = response w \<and> timers w' = timers w \<and> entropy w' = entropy w \<and>
   randCalls w' = randCalls w"
  by (auto simp: pSaveSession_def split: prod.splits)

lemma cache_Set_returns_nil: "fst (cache_Set C a w) = None"
  by (simp add: cache_Set_def Let_def split: prod.split option.split)

lemma cache_Set_inserted:
  "MaxSessionCacheSize C \<noteq> 0 \<Longrightarrow>
   map_of (cache (snd (cache_Set C a w))) (sid (heap w a)) = Some a"
  by (auto simp: cache_Set_def Let_def update_conv' dest!: pSaveSession_frame
      split: prod.split option.split)

text \<open>
  C3. The claim is that \<open>Set\<close> reports the error of the write-through \<open>SaveSession\<close> and
  keeps the entry in the cache. The entry is kept (\<open>cache_Set_inserted\<close>), but the error
  is not reported: the branch \<open>err != nil\<close> returns \<open>nil\<close>, so \<open>Set\<close> returns \<open>nil\<close> on every
  input (\<open>cache_Set_returns_nil\<close>). Here the session \<open>''s1''\<close> is stored while the backend
  answers \<open>SaveSession\<close> with the error \<open>disk full\<close>: the call is made, the entry is in
  the cache, and the result is \<open>nil\<close>.
\<close>

theorem cache_Set_swallows_error:
  "cache_Set failingSave 0
     (emptyWorld\<lparr>heap := (heap emptyWorld)(0 := newSession\<lparr>sid := ''s1''\<rparr>), nextAddr := 1\<rparr>)
   = (None,
      emptyWorld\<lparr>heap := (heap emptyWorld)(0 := newSession\<lparr>sid := ''s1'', lastAccess := 0\<rparr>),
                  nextAddr := 1, cache := [(''s1'', 0)],
                  trace := [ESaveSession ''s1'' (newSession\<lparr>sid := ''s1'', lastAccess := 0\<rparr>)]\<rparr>)"
  by (simp add: cache_Set_def failingSave_def emptyWorld_def defaultConfig_def cache_compact_def
      pSaveSession_def Let_def newSession_def ExtendablePersistenceLayer_def)

section \<open>Properties of the session data operations\<close>

lemma Session_GetAndDelete_no_save:
  "trace (snd (Session_GetAndDelete a key d w)) = trace w \<and>
   store (snd (Session_GetAndDelete a key d w)) = store w"
  by (simp add: Session_GetAndDelete_def split: option.split)

lemma Session_Delete_saves:
  "Session_Delete C a key w = (r, w') \<Longrightarrow>
   \<exists>s. trace w' = trace w @ [ESaveSession (sid (heap w a)) s] \<and>
       r = fst (SaveSession (Persistence C) (sid (heap w a)) s (store w))"
  by (auto simp: Session_Delete_def pSaveSession_def Let_def split: option.splits prod.splits)

lemma Session_Set_saves:
  "Session_Set C a key v w = (r, w') \<Longrightarrow> data (heap w a) \<noteq> None \<Longrightarrow>
   \<exists>s. trace w' = trace w @ [ESaveSession (sid (heap w a)) s] \<and>
       r = map_option Err (fst (SaveSession (Persistence C) (sid (heap w a)) s (store w)))"
  by (auto simp: Session_Set_def pSaveSession_def Let_def split: option.splits prod.splits)

text \<open>
  C5. The claim is that \<open>Set\<close>, \<open>GetAndDelete\<close> and \<open>Delete\<close> each trigger a write-through
  \<open>SaveSession\<close> whose error propagates. \<open>Set\<close> and \<open>Delete\<close> do (\<open>Session_Set_saves\<close>,
  \<open>Session_Delete_saves\<close>). \<open>GetAndDelete\<close> removes the key from the session in memory
  and returns the value; it makes no call on the persistence layer and has no error
  result (\<open>Session_GetAndDelete_no_save\<close>). Here the key \<open>key1\<close> is removed from a session:
  the trace of calls stays empty.
\<close>

theorem GetAndDelete_does_not_save:
  "Session_GetAndDelete 0 ''key1'' VNil
     (emptyWorld\<lparr>heap := (heap emptyWorld)
                    (0 := newSession\<lparr>sid := ''s1'', data := Some (fmupd ''key1'' (VBool True) fmempty)\<rparr>),
                 nextAddr := 1\<rparr>)
   = (VBool True,
      emptyWorld\<lparr>heap := (heap emptyWorld)(0 := newSession\<lparr>sid := ''s1'', data := Some fmempty\<rparr>),
                 nextAddr := 1\<rparr>)"
  by (simp add: Session_GetAndDelete_def emptyWorld_def newSession_def fmdrop_fmupd_same)

section \<open>Properties of the serialization\<close>

lemma UnmarshalJSON_checks_version:
  "obj ''v'' \<noteq> Some (VNum 1) \<Longrightarrow> \<exists>err. UnmarshalJSON C tp (Inr obj) s w = (Inl err, w)"
  by (auto simp: UnmarshalJSON_def split: option.split val.split)

text \<open>
  C6. The claim is that both decoders reject a payload whose version is not 1.
  \<open>UnmarshalJSON\<close> does (\<open>UnmarshalJSON_checks_version\<close>). \<open>GobDecode\<close> decodes the version
  into a local variable and never compares it: a payload that starts with the version 2
  and carries well-typed fields decodes without error.
\<close>

theorem GobDecode_accepts_version_2:
  "GobDecode defaultConfig
     [GUint 2, GTime 5, GTime 7, GString ''192.168.178.1:80'', GUint 9, GString [],
      GBool False, GMap fmempty]
     newSession emptyWorld
   = (Inr (newSession\<lparr>created := 5, lastAccess := 7, lastIP := ''192.168.178.1:80'',
                        lastUserAgentHash := 9, data := Some fmempty\<rparr>),
      emptyWorld)"
  by (simp add: GobDecode_def GobDecode_user_def decode_uint8_def decode_time_def
      decode_string_def decode_uint64_def decode_bool_def decode_map_def newSession_def)





section \<open>Properties of RegenerateID and Start\<close>

lemmas fixture_defs = exampleID_def secondID_def thirdID_def exampleRequest_def agedWorld_def
  shadowWorld_def chainWorld_def emptyWorld_def newSession_def defaultConfig_def
  ExtendablePersistenceLayer_def hour_def minute_def

lemmas valid_defs = Start_valid_def userAgentHash_def ipCheck_def time_Since_def sat64_def
  wrap64_def maxInt64_def minInt64_def Let_def

lemma RegenerateID_effect:
  fixes w :: "'p world" and a :: nat and C :: "'p config"
  assumes e: "entropy w (randCalls w) = Inr bytes"
  defines "newID \<equiv> base64_EncodeToString bytes"
      and "oldID \<equiv> sid (heap w a)"
      and "b \<equiv> nextAddr w"
  shows "\<exists>w'. RegenerateID C a w = (None, w') \<and> now w' = now w \<and> nextAddr w' = b + 1 \<and>
           response w' = response w @ [sessionCookie C newID w] \<and>
           timers w' = timers w @ [(SessionIDGracePeriod C, oldID)] \<and>
           heap w' b = \<lparr>sid = oldID, user = None, created = now w, lastAccess = now w,
                        lastIP = lastIP (heap w a),
                        lastUserAgentHash = lastUserAgentHash (heap w a),
                        referenceID = newID, data = None\<rparr> \<and>
           (a \<noteq> b \<longrightarrow> heap w' a = (heap w a)\<lparr>sid := newID, created := now w, lastAccess := now w\<rparr>) \<and>
           (\<forall>c. c \<noteq> a \<and> c \<noteq> b \<longrightarrow> heap w' c = heap w c) \<and>
           (MaxSessionCacheSize C \<noteq> 0 \<longrightarrow> map_of (cache w') oldID = Some b)"
proof -
  let ?w1 = "w\<lparr>randCalls := randCalls w + 1\<rparr>"
  have g: "generateSesssionID w = (Inr newID, ?w1)"
    using e by (simp add: generateSesssionID_def newID_def Let_def)
  let ?w2 = "?w1\<lparr>heap := (heap ?w1)(a := (heap ?w1 a)\<lparr>sid := newID, created := now ?w1\<rparr>)\<rparr>"
  obtain r3 w3 where s1: "cache_Set C a ?w2 = (r3, w3)" by (cases "cache_Set C a ?w2")
  note f1 = cache_Set_effect [OF s1]
  let ?ref = "\<lparr>sid = oldID, user = None, created = created (heap w3 a),
                lastAccess = now w3 + wrap64 (- SessionIDExpiry C),
                lastIP = lastIP (heap w3 a),
                lastUserAgentHash = lastUserAgentHash (heap w3 a),
                referenceID = newID, data = None\<rparr>"
  let ?w4 = "w3\<lparr>heap := (heap w3)(nextAddr w3 := ?ref), nextAddr := nextAddr w3 + 1\<rparr>"
  obtain r5 w5 where s2: "cache_Set C (nextAddr w3) ?w4 = (r5, w5)"
    by (cases "cache_Set C (nextAddr w3) ?w4")
  note f2 = cache_Set_effect [OF s2]
  let ?w' = "SetCookie (sessionCookie C newID w5) (w5\<lparr>timers := timers w5 @ [(SessionIDGracePeriod C, oldID)]\<rparr>)"
  have R: "RegenerateID C a w = (None, ?w')"
    using g s1 s2 f1 f2
    by (simp add: RegenerateID_def Let_def oldID_def)
  have nb: "nextAddr w3 = b" using f1 by (simp add: b_def)
  show ?thesis
    apply (rule exI [of _ ?w'])
    using R f1 f2 nb
    by (auto simp: SetCookie_def sessionCookie_def oldID_def b_def)
qed

lemma Start_found_step:
  "reqCookie r = Some i \<Longrightarrow> length i = 24 \<Longrightarrow> cache_Get C i w = (Inr (Some a), w1) \<Longrightarrow>
   Start C r createIfNew w = Start_found C r (userAgentHash r) createIfNew i a w1"
  by (simp add: Start_def)

lemma Start_rotates_primary:
  assumes c: "reqCookie r = Some i" "length i = 24"
      and g: "cache_Get C i w = (Inr (Some a), w1)"
      and v: "Start_valid C r (userAgentHash r) (now w1) (heap w1 a)"
      and p: "referenceID (heap w1 a) = []"
      and o: "SessionIDExpiry C \<le> time_Since (now w1) (created (heap w1 a))"
      and e: "entropy w1 (randCalls w1) = Inr bytes"
      and n: "a \<noteq> nextAddr w1"
  shows "\<exists>w'. Start C r createIfNew w = (Inr (Some a), w') \<and>
           sid (heap w' a) = base64_EncodeToString bytes \<and>
           response w' = response w @ [sessionCookie C (base64_EncodeToString bytes) w]"
proof -
  from RegenerateID_effect [OF e, of C a] obtain w2 where
    R: "RegenerateID C a w1 = (None, w2)"
    and r2: "response w2 = response w1 @ [sessionCookie C (base64_EncodeToString bytes) w1]"
    and h2: "heap w2 a = (heap w1 a)\<lparr>sid := base64_EncodeToString bytes, created := now w1, lastAccess := now w1\<rparr>"
    using n by blast
  from cache_Get_env [OF g] have env: "now w1 = now w" "response w1 = response w" by simp_all
  have "Start C r createIfNew w = (Inr (Some a), Start_touch r (userAgentHash r) a w2)"
    using v p o R h2
    by (simp add: Start_found_step [OF c g] Start_found_def Start_reference_def Let_def)
  then show ?thesis
    using r2 h2 env by (simp add: Start_touch_def sessionCookie_def)
qed

text \<open>
  C4. The claim is that after \<open>RegenerateID\<close> the session stored under the old
  identifier is a reference session with the new identifier in \<open>referenceID\<close>, with
  \<open>lastAccess = now - SessionIDExpiry\<close> and with \<open>created\<close> as it was in the old session.
  \<open>RegenerateID\<close> writes \<open>s.created = time.Now()\<close> before it copies \<open>s.created\<close> into the
  reference session, and \<open>sessions.Set\<close> overwrites the \<open>lastAccess\<close> it was given with
  \<open>time.Now()\<close> (\<open>RegenerateID_effect\<close>). Here a session created at time 0 is rotated two
  hours later with \<open>SessionIDExpiry\<close> of one hour: the reference session under the old
  identifier has \<open>created\<close> and \<open>lastAccess\<close> at two hours, not at 0 and at one hour.
\<close>

theorem RegenerateID_reference_fields:
  "created (heap agedWorld 0) = 0 \<and>
   now agedWorld + wrap64 (- SessionIDExpiry (defaultConfig :: unit config)) = hour \<and>
   fst (RegenerateID defaultConfig 0 agedWorld) = None \<and>
   map_of (cache (snd (RegenerateID defaultConfig 0 agedWorld))) exampleID = Some 1 \<and>
   referenceID (heap (snd (RegenerateID defaultConfig 0 agedWorld)) 1) = ''AAAAAAAAAAAAAAAAAAAAAA=='' \<and>
   created (heap (snd (RegenerateID defaultConfig 0 agedWorld)) 1) = 2 * hour \<and>
   lastAccess (heap (snd (RegenerateID defaultConfig 0 agedWorld)) 1) = 2 * hour"
proof -
  have e: "entropy agedWorld (randCalls agedWorld) = Inr [0, 0, 0, 0, 0, 0, 0, 0, 0, 0, 0, 0, 0, 0, 0, 0]"
    by (simp add: fixture_defs)
  have b: "base64_EncodeToString [0, 0, 0, 0, 0, 0, 0, 0, 0, 0, 0, 0, 0, 0, 0, 0] = ''AAAAAAAAAAAAAAAAAAAAAA==''"
    by (simp add: base64_alphabet_def)
  have m: "MaxSessionCacheSize (defaultConfig :: unit config) \<noteq> 0"
    by (simp add: fixture_defs)
  have s: "sid (heap agedWorld 0) = exampleID" "nextAddr agedWorld = 1" "now agedWorld = 2 * hour"
    "created (heap agedWorld 0) = 0"
    "now agedWorld + wrap64 (- SessionIDExpiry (defaultConfig :: unit config)) = hour"
    by (simp_all add: fixture_defs valid_defs)
  from RegenerateID_effect [OF e, of defaultConfig 0] obtain w' where
    "RegenerateID defaultConfig 0 agedWorld = (None, w')"
    "heap w' (nextAddr agedWorld) =
       \<lparr>sid = sid (heap agedWorld 0), user = None, created = now agedWorld,
        lastAccess = now agedWorld, lastIP = lastIP (heap agedWorld 0),
        lastUserAgentHash = lastUserAgentHash (heap agedWorld 0),
        referenceID = ''AAAAAAAAAAAAAAAAAAAAAA=='', data = None\<rparr>"
    "map_of (cache w') (sid (heap agedWorld 0)) = Some (nextAddr agedWorld)"
    unfolding b using m by blast
  with s show ?thesis by simp
qed

text \<open>
  C2. The claim is that a primary session whose age is at least
  \<open>SessionIDExpiry + SessionIDGracePeriod\<close> is deleted and \<open>Start\<close> fails with
  \<open>Session expired\<close>. A primary session of that age is at least \<open>SessionIDExpiry\<close> old
  and takes the first branch of the test: it is rotated and returned
  (\<open>Start_rotates_primary\<close>). Here the cached primary session is two hours old under the
  default intervals (one hour, five minutes): \<open>Start\<close> returns it and sets the cookie of
  the new identifier.
\<close>

theorem Start_rotates_aged_primary:
  "referenceID (heap agedWorld 0) = [] \<and>
   SessionIDExpiry (defaultConfig :: unit config) + SessionIDGracePeriod (defaultConfig :: unit config)
     \<le> time_Since (now agedWorld) (created (heap agedWorld 0)) \<and>
   fst (Start defaultConfig exampleRequest False agedWorld) = Inr (Some 0) \<and>
   response (snd (Start defaultConfig exampleRequest False agedWorld)) =
     [sessionCookie defaultConfig ''AAAAAAAAAAAAAAAAAAAAAA=='' agedWorld]"
proof -
  have c: "reqCookie exampleRequest = Some exampleID" "length exampleID = 24"
    by (simp_all add: fixture_defs)
  have g: "cache_Get defaultConfig exampleID agedWorld = (Inr (Some 0), agedWorld)"
    by (rule cache_Get_cached) (simp add: fixture_defs)
  have v: "Start_valid (defaultConfig :: unit config) exampleRequest (userAgentHash exampleRequest)
             (now agedWorld) (heap agedWorld 0)"
    by (simp add: fixture_defs valid_defs)
  have p: "referenceID (heap agedWorld 0) = []"
    by (simp add: fixture_defs)
  have o: "SessionIDExpiry (defaultConfig :: unit config)
             \<le> time_Since (now agedWorld) (created (heap agedWorld 0))"
    by (simp add: fixture_defs valid_defs)
  have o2: "SessionIDExpiry (defaultConfig :: unit config) + SessionIDGracePeriod (defaultConfig :: unit config)
             \<le> time_Since (now agedWorld) (created (heap agedWorld 0))"
    by (simp add: fixture_defs valid_defs)
  have e: "entropy agedWorld (randCalls agedWorld) = Inr [0, 0, 0, 0, 0, 0, 0, 0, 0, 0, 0, 0, 0, 0, 0, 0]"
    by (simp add: fixture_defs)
  have n: "0 \<noteq> nextAddr agedWorld"
    by (simp add: fixture_defs)
  have b: "base64_EncodeToString [0, 0, 0, 0, 0, 0, 0, 0, 0, 0, 0, 0, 0, 0, 0, 0] = ''AAAAAAAAAAAAAAAAAAAAAA==''"
    by (simp add: base64_alphabet_def)
  have r: "response agedWorld = []"
    by (simp add: fixture_defs)
  from Start_rotates_primary [OF c g v p o e n, of False] obtain w' where
    "Start defaultConfig exampleRequest False agedWorld = (Inr (Some 0), w')"
    "response w' = response agedWorld @ [sessionCookie defaultConfig ''AAAAAAAAAAAAAAAAAAAAAA=='' agedWorld]"
    unfolding b by blast
  with p o2 r show ?thesis by simp
qed

lemma cache_Set_nil: "cache_Set C a w = (Some err, w') \<Longrightarrow> False"
  using cache_Set_returns_nil [of C a w] by simp

lemma RegenerateID_error:
  "fst (RegenerateID C a w) = Some err \<Longrightarrow>
   \<exists>e. err = ''Could not generate replacement session ID: '' @ e"
  by (auto simp: RegenerateID_def Let_def
      split: prod.splits sum.splits option.splits dest: cache_Set_nil)

lemma Start_reference_result:
  "fst (Start_reference C r h a w) \<noteq> Inl ''Session expired''"
  by (auto simp: Start_reference_def Let_def split: prod.splits sum.splits option.splits)

text \<open>
  C2, as amended. When \<open>Start\<close> fetches a session that passes the validity checks, and
  the backend deletes without error, \<open>Start\<close> fails with \<open>Session expired\<close> exactly when
  the age of the session since \<open>created\<close> is at least
  \<open>SessionIDExpiry + SessionIDGracePeriod\<close> (the int64 sum, which wraps around) and the
  session is not a primary session of age at least \<open>SessionIDExpiry\<close>, which the earlier
  test sends to the rotation. When it fails so, the entry of the presented identifier is
  deleted from the cache and from the backend, and no cookie is set. The witness has a
  reference session past its grace period, and a primary session under
  \<open>SessionIDExpiry = math.MaxInt64\<close>, where the sum wraps to a negative duration.
\<close>

theorem Start_session_expired:
  assumes c: "reqCookie r = Some i" "length i = 24"
      and g: "cache_Get C i w = (Inr (Some a), w1)"
      and v: "Start_valid C r (userAgentHash r) (now w1) (heap w1 a)"
      and d: "fst (DeleteSession (Persistence C) i (store w1)) = None"
  shows "(fst (Start C r createIfNew w) = Inl ''Session expired'' \<longleftrightarrow>
            \<not> (referenceID (heap w1 a) = [] \<and>
                SessionIDExpiry C \<le> time_Since (now w1) (created (heap w1 a))) \<and>
            wrap64 (SessionIDExpiry C + SessionIDGracePeriod C)
              \<le> time_Since (now w1) (created (heap w1 a))) \<and>
         (fst (Start C r createIfNew w) = Inl ''Session expired'' \<longrightarrow>
            map_of (cache (snd (Start C r createIfNew w))) i = None \<and>
            trace (snd (Start C r createIfNew w)) = trace w1 @ [EDeleteSession i] \<and>
            response (snd (Start C r createIfNew w)) = response w)"
proof -
  let ?age = "time_Since (now w1) (created (heap w1 a))"
  let ?rot = "referenceID (heap w1 a) = [] \<and> SessionIDExpiry C \<le> ?age"
  let ?exp = "wrap64 (SessionIDExpiry C + SessionIDGracePeriod C) \<le> ?age"
  obtain rd w2 where D: "cache_Delete C i w1 = (rd, w2)" by (cases "cache_Delete C i w1")
  note f = cache_Delete_effect [OF D]
  from f d have rd: "rd = None" by simp
  from cache_Get_env [OF g] have env: "response w1 = response w" by simp
  note S = Start_found_step [OF c g, of createIfNew]
  consider (rot) ?rot | (exp) "\<not> ?rot" ?exp | (ok) "\<not> ?rot" "\<not> ?exp" by blast
  then show ?thesis
  proof cases
    case rot
    obtain rr w3 where R: "RegenerateID C a w1 = (rr, w3)" by (cases "RegenerateID C a w1")
    have "fst (Start C r createIfNew w) \<noteq> Inl ''Session expired''"
    proof (cases rr)
      case None
      with R rot v show ?thesis
        using Start_reference_result [of C r "userAgentHash r" a w3]
        by (simp add: S Start_found_def Let_def)
    next
      case (Some err)
      with R RegenerateID_error [of C a w1 err] obtain e where
        "err = ''Could not generate replacement session ID: '' @ e" by auto
      with R rot v Some show ?thesis
        by (simp add: S Start_found_def Let_def)
    qed
    with rot show ?thesis by simp
  next
    case exp
    have "Start C r createIfNew w = (Inl ''Session expired'', w2)"
      using v exp D rd by (auto simp: S Start_found_def Let_def)
    with exp f env show ?thesis by (simp add: unchanged_def)
  next
    case ok
    have "fst (Start C r createIfNew w) \<noteq> Inl ''Session expired''"
      using v ok Start_reference_result [of C r "userAgentHash r" a w1]
      by (auto simp: S Start_found_def Let_def)
    with ok show ?thesis by simp
  qed
qed

theorem Start_session_expired_witness:
  "reqCookie exampleRequest = Some exampleID \<and> length exampleID = 24 \<and>
   cache_Get defaultConfig exampleID shadowWorld = (Inr (Some 0), shadowWorld) \<and>
   Start_valid (defaultConfig :: unit config) exampleRequest (userAgentHash exampleRequest)
     (now shadowWorld) (heap shadowWorld 0) \<and>
   fst (DeleteSession (Persistence defaultConfig) exampleID (store shadowWorld)) = None \<and>
   referenceID (heap shadowWorld 0) \<noteq> [] \<and>
   wrap64 (SessionIDExpiry (defaultConfig :: unit config)
           + SessionIDGracePeriod (defaultConfig :: unit config))
     \<le> time_Since (now shadowWorld) (created (heap shadowWorld 0)) \<and>
   fst (Start defaultConfig exampleRequest False shadowWorld) = Inl ''Session expired'' \<and>
   map_of (cache (snd (Start defaultConfig exampleRequest False shadowWorld))) exampleID = None \<and>
   trace (snd (Start defaultConfig exampleRequest False shadowWorld)) = [EDeleteSession exampleID] \<and>
   response (snd (Start defaultConfig exampleRequest False shadowWorld)) = [] \<and>
   cache_Get neverRotate exampleID agedWorld = (Inr (Some 0), agedWorld) \<and>
   Start_valid neverRotate exampleRequest (userAgentHash exampleRequest)
     (now agedWorld) (heap agedWorld 0) \<and>
   fst (DeleteSession (Persistence neverRotate) exampleID (store agedWorld)) = None \<and>
   referenceID (heap agedWorld 0) = [] \<and>
   \<not> SessionIDExpiry neverRotate \<le> time_Since (now agedWorld) (created (heap agedWorld 0)) \<and>
   wrap64 (SessionIDExpiry neverRotate + SessionIDGracePeriod neverRotate)
     \<le> time_Since (now agedWorld) (created (heap agedWorld 0)) \<and>
   fst (Start neverRotate exampleRequest False agedWorld) = Inl ''Session expired''"
proof -
  have c: "reqCookie exampleRequest = Some exampleID" "length exampleID = 24"
    by (simp_all add: fixture_defs)
  have g: "cache_Get defaultConfig exampleID shadowWorld = (Inr (Some 0), shadowWorld)"
    by (rule cache_Get_cached) (simp add: fixture_defs)
  have v: "Start_valid (defaultConfig :: unit config) exampleRequest (userAgentHash exampleRequest)
             (now shadowWorld) (heap shadowWorld 0)"
    by (simp add: fixture_defs valid_defs)
  have d: "fst (DeleteSession (Persistence defaultConfig) exampleID (store shadowWorld)) = None"
    by (simp add: fixture_defs)
  have p: "referenceID (heap shadowWorld 0) \<noteq> []"
    by (simp add: fixture_defs)
  have o: "wrap64 (SessionIDExpiry (defaultConfig :: unit config)
                   + SessionIDGracePeriod (defaultConfig :: unit config))
             \<le> time_Since (now shadowWorld) (created (heap shadowWorld 0))"
    by (simp add: fixture_defs valid_defs)
  have t: "trace shadowWorld = []" "response shadowWorld = []"
    by (simp_all add: fixture_defs)
  have g2: "cache_Get neverRotate exampleID agedWorld = (Inr (Some 0), agedWorld)"
    by (rule cache_Get_cached) (simp add: fixture_defs)
  have v2: "Start_valid neverRotate exampleRequest (userAgentHash exampleRequest)
              (now agedWorld) (heap agedWorld 0)"
    by (simp add: neverRotate_def fixture_defs valid_defs)
  have d2: "fst (DeleteSession (Persistence neverRotate) exampleID (store agedWorld)) = None"
    by (simp add: neverRotate_def fixture_defs)
  have p2: "referenceID (heap agedWorld 0) = []"
    by (simp add: fixture_defs)
  have n2: "\<not> SessionIDExpiry neverRotate \<le> time_Since (now agedWorld) (created (heap agedWorld 0))"
    by (simp add: neverRotate_def fixture_defs valid_defs)
  have o2: "wrap64 (SessionIDExpiry neverRotate + SessionIDGracePeriod neverRotate)
              \<le> time_Since (now agedWorld) (created (heap agedWorld 0))"
    by (simp add: neverRotate_def fixture_defs valid_defs)
  from Start_session_expired [OF c g v d, of False] p o t
  have A: "fst (Start defaultConfig exampleRequest False shadowWorld) = Inl ''Session expired'' \<and>
     map_of (cache (snd (Start defaultConfig exampleRequest False shadowWorld))) exampleID = None \<and>
     trace (snd (Start defaultConfig exampleRequest False shadowWorld)) = [EDeleteSession exampleID] \<and>
     response (snd (Start defaultConfig exampleRequest False shadowWorld)) = []"
    by simp
  from Start_session_expired [OF c g2 v2 d2, of False] n2 o2
  have B: "fst (Start neverRotate exampleRequest False agedWorld) = Inl ''Session expired''"
    by simp
  from A B c g v d p o g2 v2 d2 p2 n2 o2 show ?thesis by simp
qed

text \<open>
  C10. When the session fetched under the cookie is a valid reference session within its
  grace period, \<open>Start\<close> sets a cookie named \<open>SessionCookie\<close> whose value is its
  \<open>referenceID\<close> (the cookie of \<open>NewSessionCookie\<close> otherwise), fetches the session
  stored under that identifier, stamps it with the time, the remote address and the
  user agent hash, and returns it. The \<open>referenceID\<close> of the returned session is that of
  the fetched session, whatever it is: it is not tested. In the witness the successor is
  itself a reference session, and \<open>Start\<close> returns a session whose \<open>referenceID\<close> is not
  empty.
\<close>

theorem Start_follows_reference_once:
  assumes c: "reqCookie r = Some i" "length i = 24"
      and g: "cache_Get C i w = (Inr (Some a), w1)"
      and v: "Start_valid C r (userAgentHash r) (now w1) (heap w1 a)"
      and p: "referenceID (heap w1 a) \<noteq> []"
      and o: "\<not> wrap64 (SessionIDExpiry C + SessionIDGracePeriod C)
                \<le> time_Since (now w1) (created (heap w1 a))"
      and f: "cache_Get C (referenceID (heap w1 a))
                (SetCookie (sessionCookie C (referenceID (heap w1 a)) w1) w1) = (Inr (Some b), w2)"
  shows "\<exists>w' ck. Start C r createIfNew w = (Inr (Some b), w') \<and>
           response w' = response w @ [ck] \<and>
           ck = sessionCookie C (referenceID (heap w1 a)) w \<and>
           cName ck = SessionCookie C \<and> cValue ck = referenceID (heap w1 a) \<and>
           ck = (NewSessionCookie C (now w))\<lparr>cName := SessionCookie C,
                                               cValue := referenceID (heap w1 a)\<rparr> \<and>
           referenceID (heap w' b) = referenceID (heap w2 b) \<and>
           lastAccess (heap w' b) = now w \<and> lastIP (heap w' b) = RemoteAddr r \<and>
           lastUserAgentHash (heap w' b) = userAgentHash r"
proof -
  from cache_Get_env [OF g] have env: "now w1 = now w" "response w1 = response w" by simp_all
  from cache_Get_env [OF f] have env2: "now w2 = now w1"
    "response w2 = response w1 @ [sessionCookie C (referenceID (heap w1 a)) w1]"
    by (simp_all add: SetCookie_def)
  have "Start C r createIfNew w = (Inr (Some b), Start_touch r (userAgentHash r) b w2)"
    using v p o f
    by (simp add: Start_found_step [OF c g] Start_found_def Start_reference_def Let_def SetCookie_def)
  then show ?thesis
    using env env2 by (simp add: Start_touch_def sessionCookie_def)
qed


theorem Start_follows_reference_once_witness:
  "reqCookie exampleRequest = Some exampleID \<and> length exampleID = 24 \<and>
   cache_Get defaultConfig exampleID chainWorld = (Inr (Some 0), chainWorld) \<and>
   Start_valid (defaultConfig :: unit config) exampleRequest (userAgentHash exampleRequest)
     (now chainWorld) (heap chainWorld 0) \<and>
   referenceID (heap chainWorld 0) = secondID \<and> secondID \<noteq> [] \<and>
   \<not> wrap64 (SessionIDExpiry (defaultConfig :: unit config)
             + SessionIDGracePeriod (defaultConfig :: unit config))
       \<le> time_Since (now chainWorld) (created (heap chainWorld 0)) \<and>
   cache_Get defaultConfig secondID
     (SetCookie (sessionCookie defaultConfig secondID chainWorld) chainWorld)
     = (Inr (Some 1), SetCookie (sessionCookie defaultConfig secondID chainWorld) chainWorld) \<and>
   (\<exists>w' ck. Start defaultConfig exampleRequest False chainWorld = (Inr (Some 1), w') \<and>
      response w' = [ck] \<and> cName ck = ''id'' \<and> cValue ck = secondID \<and>
      referenceID (heap w' 1) = thirdID \<and> thirdID \<noteq> [])"
proof -
  let ?w1 = "SetCookie (sessionCookie defaultConfig secondID chainWorld) chainWorld"
  have c: "reqCookie exampleRequest = Some exampleID" "length exampleID = 24"
    by (simp_all add: fixture_defs)
  have g: "cache_Get defaultConfig exampleID chainWorld = (Inr (Some 0), chainWorld)"
    by (rule cache_Get_cached) (simp add: fixture_defs)
  have v: "Start_valid (defaultConfig :: unit config) exampleRequest (userAgentHash exampleRequest)
             (now chainWorld) (heap chainWorld 0)"
    by (simp add: fixture_defs valid_defs)
  have p: "referenceID (heap chainWorld 0) = secondID" "secondID \<noteq> []" "thirdID \<noteq> []"
    by (simp_all add: fixture_defs)
  then have p': "referenceID (heap chainWorld 0) \<noteq> []" by simp
  have o: "\<not> wrap64 (SessionIDExpiry (defaultConfig :: unit config)
                     + SessionIDGracePeriod (defaultConfig :: unit config))
               \<le> time_Since (now chainWorld) (created (heap chainWorld 0))"
    by (simp add: fixture_defs valid_defs)
  have f: "cache_Get defaultConfig secondID ?w1 = (Inr (Some 1), ?w1)"
    by (rule cache_Get_cached) (simp add: fixture_defs SetCookie_def)
  then have f': "cache_Get defaultConfig (referenceID (heap chainWorld 0))
                   (SetCookie (sessionCookie defaultConfig (referenceID (heap chainWorld 0)) chainWorld)
                      chainWorld) = (Inr (Some 1), ?w1)"
    by (simp add: p)
  have t: "response chainWorld = []" "referenceID (heap ?w1 1) = thirdID"
    by (simp_all add: fixture_defs SetCookie_def)
  have n: "SessionCookie (defaultConfig :: unit config) = ''id''"
    by (simp add: fixture_defs)
  from Start_follows_reference_once [OF c g v p' o f', of False] obtain w' ck where
    "Start defaultConfig exampleRequest False chainWorld = (Inr (Some 1), w')"
    "response w' = response chainWorld @ [ck]"
    "cName ck = SessionCookie (defaultConfig :: unit config)"
    "cValue ck = referenceID (heap chainWorld 0)"
    "referenceID (heap w' 1) = referenceID (heap ?w1 1)"
    by blast
  with t c g v p o f n show ?thesis
    by simp
qed

section \<open>Properties of the remote address check\<close>

lemma first_some_rev_upt:
  "0 < n \<Longrightarrow> f n = Some x \<Longrightarrow> first_some (map f (rev [1..<Suc n])) = Some x"
  by simp

lemma takeWhile_digits:
  "list_all is_digit ds \<Longrightarrow> rest = [] \<or> \<not> is_digit (hd rest) \<Longrightarrow>
   takeWhile is_digit (ds @ rest) = ds"
  by (cases rest) (auto simp: list_all_iff takeWhile_append2 intro: takeWhile_eq_all_conv [THEN iffD2])

lemma rx_match_Digits:
  assumes "digits ds" and "rest = [] \<or> \<not> is_digit (hd rest)"
      and "rx_match r rest = Some groups"
  shows "rx_match (Digits captured # r) (ds @ rest)
           = Some (if captured then ds # groups else groups)"
proof -
  from assms have t: "takeWhile is_digit (ds @ rest) = ds"
    by (simp add: digits_def takeWhile_digits)
  from assms have l: "0 < length ds" by (simp add: digits_def)
  show ?thesis
    using assms(3) l
    by (simp only: rx_match.simps t upt_Suc rev.simps list.map append.simps
        first_some.simps) (simp add: Suc_le_eq)
qed

lemma not_digit_dot [simp]: "\<not> is_digit (CHR ''.'')" "\<not> is_digit (CHR '':'')"
  by (simp_all add: is_digit_def)

lemma rx_match_AnyChar_dot: "rx_match (AnyChar # r) (CHR ''.'' # s) = rx_match r s"
  by simp

text \<open>
  A rune of two bytes (here U+00E9) is taken whole by one dot; so is a byte that starts
  no well-formed encoding.
\<close>

lemma FindStringSubmatch_two_byte_rune:
  "FindStringSubmatch ipFormat (''1'' @ [CHR 0xC3, CHR 0xA9] @ ''2.3.4:5'')
     = [''1'' @ [CHR 0xC3, CHR 0xA9] @ ''2.3.4:5'', ''1'', ''2'', ''3'', ''4'']"
  by (simp add: FindStringSubmatch_def ipFormat_def is_digit_def continuation_def)

lemma FindStringSubmatch_stray_byte:
  "FindStringSubmatch ipFormat (''1'' @ [CHR 0xC3] @ ''2.3.4:5'')
     = [''1'' @ [CHR 0xC3] @ ''2.3.4:5'', ''1'', ''2'', ''3'', ''4'']"
  by (simp add: FindStringSubmatch_def ipFormat_def is_digit_def continuation_def)

lemma rx_match_ipv4:
  assumes "digits a" "digits b" "digits c" "digits d" "digits p"
  shows "rx_match ipFormat (ipv4_port a b c d p) = Some [a, b, c, d]"
proof -
  have 1: "rx_match [Digits False] (p @ []) = Some []"
    using rx_match_Digits [OF assms(5), of "[]" "[]" "[]" False] by simp
  then have 2: "rx_match [Lit (CHR '':''), Digits False] ('':'' @ p) = Some []"
    by simp
  have 3: "rx_match [Digits True, Lit (CHR '':''), Digits False] (d @ '':'' @ p) = Some [d]"
    using rx_match_Digits [OF assms(4) _ 2, of True] by simp
  then have 4: "rx_match [AnyChar, Digits True, Lit (CHR '':''), Digits False]
                  (''.'' @ d @ '':'' @ p) = Some [d]"
    by simp
  have 5: "rx_match [Digits True, AnyChar, Digits True, Lit (CHR '':''), Digits False]
             (c @ ''.'' @ d @ '':'' @ p) = Some [c, d]"
    using rx_match_Digits [OF assms(3) _ 4, of True] by simp
  then have 6: "rx_match [AnyChar, Digits True, AnyChar, Digits True, Lit (CHR '':''), Digits False]
                  (''.'' @ c @ ''.'' @ d @ '':'' @ p) = Some [c, d]"
    by simp
  have 7: "rx_match [Digits True, AnyChar, Digits True, AnyChar, Digits True, Lit (CHR '':''),
                     Digits False]
             (b @ ''.'' @ c @ ''.'' @ d @ '':'' @ p) = Some [b, c, d]"
    using rx_match_Digits [OF assms(2) _ 6, of True] by simp
  then have 8: "rx_match [AnyChar, Digits True, AnyChar, Digits True, AnyChar, Digits True,
                          Lit (CHR '':''), Digits False]
                  (''.'' @ b @ ''.'' @ c @ ''.'' @ d @ '':'' @ p) = Some [b, c, d]"
    by simp
  show ?thesis
    using rx_match_Digits [OF assms(1) _ 8, of True]
    by (simp add: ipFormat_def ipv4_port_def)
qed

lemma FindStringSubmatch_ipv4:
  "digits a \<Longrightarrow> digits b \<Longrightarrow> digits c \<Longrightarrow> digits d \<Longrightarrow> digits p \<Longrightarrow>
   FindStringSubmatch ipFormat (ipv4_port a b c d p) = [ipv4_port a b c d p, a, b, c, d]"
  by (simp add: FindStringSubmatch_def rx_match_ipv4)

lemma ip_loop_unfold:
  "k \<le> 4 \<Longrightarrow>
   ip_loop 1 k [w, a, b, c, d] [w', a', b', c', d'] =
     (if k \<le> 1 then True
      else if a \<noteq> a' then False
      else if k \<le> 2 then True
      else if b \<noteq> b' then False
      else if k \<le> 3 then True
      else c = c')"
  by (simp add: ip_loop.simps [of 1] ip_loop.simps [of 2] ip_loop.simps [of 3]
      ip_loop.simps [of 4])

lemma ipCheck_ipv4:
  assumes "digits a" "digits b" "digits c" "digits d" "digits p"
      and "digits a'" "digits b'" "digits c'" "digits d'" "digits p'"
      and "1 \<le> AcceptRemoteIP C" "AcceptRemoteIP C \<le> 4"
  shows "ipCheck C True (ipv4_port a b c d p) (ipv4_port a' b' c' d' p')
           = (take (nat (AcceptRemoteIP C - 1)) [a, b, c] = take (nat (AcceptRemoteIP C - 1)) [a', b', c'])"
proof -
  from assms(11,12) consider "AcceptRemoteIP C = 1" | "AcceptRemoteIP C = 2"
    | "AcceptRemoteIP C = 3" | "AcceptRemoteIP C = 4" by linarith
  then show ?thesis
    using assms(1-10)
    by cases (auto simp: ipCheck_def FindStringSubmatch_ipv4 ip_loop_unfold Let_def
        numeral_2_eq_2 numeral_3_eq_3)
qed

lemma ipCheck_accepts_all: "AcceptRemoteIP C \<le> 1 \<Longrightarrow> ipCheck C valid ip remoteAddr = valid"
  by (simp add: ipCheck_def)

lemma ipCheck_skipped:
  "FindStringSubmatch ipFormat ip = [] \<or> FindStringSubmatch ipFormat remoteAddr = [] \<Longrightarrow>
   ipCheck C valid ip remoteAddr = valid"
  by (auto simp: ipCheck_def Let_def)

text \<open>
  C7. The claim has three parts. With \<open>AcceptRemoteIP = 1\<close> every change is accepted
  (\<open>ipCheck_accepts_all\<close>). For two addresses of the form \<open>a.b.c.d:p\<close> and \<open>k\<close> from 1
  to 4 the session is marked invalid exactly when one of the first \<open>k - 1\<close> octets
  differs (\<open>ipCheck_ipv4\<close>). The third part, that the check is skipped when an address
  does not parse as IPv4, fails: the dots of the regular expression are not escaped and
  match any character, so \<open>1a2a3a4:5\<close> and \<open>9a2a3a4:5\<close> both match, their first groups
  differ, and with \<open>AcceptRemoteIP = 2\<close> the session is marked invalid. The check is
  skipped only for an address that the expression does not match (\<open>ipCheck_skipped\<close>).
\<close>

theorem ipCheck_not_skipped_for_non_IPv4:
  "FindStringSubmatch ipFormat ''1a2a3a4:5'' = [''1a2a3a4:5'', ''1'', ''2'', ''3'', ''4''] \<and>
   FindStringSubmatch ipFormat ''9a2a3a4:5'' = [''9a2a3a4:5'', ''9'', ''2'', ''3'', ''4''] \<and>
   ipCheck ((defaultConfig :: unit config)\<lparr>AcceptRemoteIP := 2\<rparr>) True ''1a2a3a4:5'' ''9a2a3a4:5''
     = False \<and>
   Start_valid ((defaultConfig :: unit config)\<lparr>AcceptRemoteIP := 2\<rparr>)
     (exampleRequest\<lparr>RemoteAddr := ''9a2a3a4:5''\<rparr>) 0 0
     (newSession\<lparr>lastAccess := 0, lastIP := ''1a2a3a4:5''\<rparr>) = False"
  by (simp add: Start_valid_def ipCheck_def FindStringSubmatch_def ipFormat_def is_digit_def
      ip_loop.simps defaultConfig_def exampleRequest_def newSession_def time_Since_def sat64_def
      maxInt64_def minInt64_def Let_def)

section \<open>Properties of LogOut and RefreshUser\<close>




lemma cache_allocated_heap [simp]: "cache_allocated (w\<lparr>heap := h\<rparr>) = cache_allocated w"
  by (simp add: cache_allocated_def)











lemma cache_consistent_iff:
  "cache_consistent w \<longleftrightarrow> (\<forall>(k, a) \<in> set (cache w). sid (heap w a) = k)"
  by (simp add: cache_consistent_def list_all_iff)

lemma cache_consistent_user [simp]:
  "cache_consistent (w\<lparr>heap := (heap w)(a := (heap w a)\<lparr>user := u\<rparr>)\<rparr>) = cache_consistent w"
  by (auto simp: cache_consistent_iff)










lemma time_Since_now [simp]: "time_Since t t = 0"
  by (simp add: time_Since_def sat64_def maxInt64_def minInt64_def)


lemma cache_fresh_user [simp]:
  "cache_fresh C (w\<lparr>heap := (heap w)(a := (heap w a)\<lparr>user := u\<rparr>)\<rparr>) = cache_fresh C w"
  by (auto simp: cache_fresh_def list_all_iff)



lemma Session_touch_twice [simp]:
  "s\<lparr>user := u, lastAccess := t, user := u, lastAccess := t\<rparr> = s\<lparr>user := u, lastAccess := t\<rparr>"
  by (cases s) simp





end
